theory Spec2Isabelle
  imports Main "HOL-Library.Char_ord" "HOL-Library.List_Lexorder"
begin

section \<open>Values and text formatting\<close>

text \<open>
  Python \<open>str\<close> values are modelled as HOL strings holding their UTF-8 bytes; the only
  non-ASCII letter of the messages below is a-acute (bytes C3 A1).
\<close>

definition a_agudo :: string where
  "a_agudo = [CHR 0xC3, CHR 0xA1]"

definition digit_char :: "nat \<Rightarrow> char" where
  "digit_char d = ''0123456789'' ! d"

text \<open>\<open>str(n)\<close> of a non-negative Python int: its decimal digits, most significant first.\<close>

fun str_nat :: "nat \<Rightarrow> string" where
  "str_nat n = (if n < 10 then [digit_char n] else str_nat (n div 10) @ [digit_char (n mod 10)])"

declare str_nat.simps [simp del]

definition str_int :: "int \<Rightarrow> string" where
  "str_int i = (if i < 0 then CHR ''-'' # str_nat (nat (- i)) else str_nat (nat i))"

text \<open>The format spec \<open>:04d\<close> on a non-negative int: zero-padded on the left to width 4,
  never truncated.\<close>

definition fmt_04d :: "nat \<Rightarrow> string" where
  "fmt_04d n = replicate (4 - length (str_nat n)) (CHR ''0'') @ str_nat n"

section \<open>Python values and their JSON text\<close>

datatype py_error = IntegrityError | OperationalError | TypeError

text \<open>
  The values that a details dictionary can hold. A dictionary is kept as the list of its
  items in insertion order, a list and a tuple as the list of their elements;
  \<open>PObject\<close> stands for any object that \<open>json.dumps\<close> cannot serialise (a date, a set,
  bytes). Floating-point numbers are not represented.
\<close>

datatype pyval =
    PNone
  | PBool bool
  | PInt int
  | PStr string
  | PList "pyval list"
  | PTuple "pyval list"
  | PDict "(pyval \<times> pyval) list"
  | PObject

definition hex_digit :: "nat \<Rightarrow> char" where
  "hex_digit d = ''0123456789abcdef'' ! d"

text \<open>\<open>json.dumps(..., ensure_ascii=False)\<close> escapes the quote, the backslash and the
  control characters below 0x20; every other character is written as it is.\<close>

definition escape_char :: "char \<Rightarrow> string" where
  "escape_char c =
     (if c = CHR 0x22 then [CHR 0x5C, CHR 0x22]
      else if c = CHR 0x5C then [CHR 0x5C, CHR 0x5C]
      else if c = CHR 0x08 then [CHR 0x5C, CHR ''b'']
      else if c = CHR 0x0C then [CHR 0x5C, CHR ''f'']
      else if c = CHR 0x0A then [CHR 0x5C, CHR ''n'']
      else if c = CHR 0x0D then [CHR 0x5C, CHR ''r'']
      else if c = CHR 0x09 then [CHR 0x5C, CHR ''t'']
      else if (of_char c :: nat) < 32
        then [CHR 0x5C, CHR ''u'', CHR ''0'', CHR ''0'',
              hex_digit ((of_char c :: nat) div 16), hex_digit ((of_char c :: nat) mod 16)]
      else [c])"

definition encode_basestring :: "string \<Rightarrow> string" where
  "encode_basestring s = CHR 0x22 # concat (map escape_char s) @ [CHR 0x22]"

text \<open>
  A key of a dictionary is written as a string: a \<open>str\<close> as it is, an \<open>int\<close> as its
  decimal digits, \<open>True\<close>, \<open>False\<close> and \<open>None\<close> as \<open>true\<close>, \<open>false\<close> and \<open>null\<close>. Any
  other key makes \<open>json.dumps\<close> raise \<open>TypeError\<close>, and so does a value it cannot
  serialise.
\<close>

definition chave_ok :: "pyval \<Rightarrow> bool" where
  "chave_ok k =
     (case k of PStr s \<Rightarrow> True | PInt i \<Rightarrow> True | PBool b \<Rightarrow> True | PNone \<Rightarrow> True | _ \<Rightarrow> False)"

definition chave_text :: "pyval \<Rightarrow> string" where
  "chave_text k =
     (case k of
        PStr s \<Rightarrow> s
      | PInt i \<Rightarrow> str_int i
      | PBool b \<Rightarrow> (if b then ''true'' else ''false'')
      | PNone \<Rightarrow> ''null''
      | _ \<Rightarrow> [])"

fun serializavel :: "pyval \<Rightarrow> bool"
  and serializaveis :: "pyval list \<Rightarrow> bool"
  and itens_serializaveis :: "(pyval \<times> pyval) list \<Rightarrow> bool" where
  "serializavel PNone = True"
| "serializavel (PBool b) = True"
| "serializavel (PInt i) = True"
| "serializavel (PStr s) = True"
| "serializavel (PList vs) = serializaveis vs"
| "serializavel (PTuple vs) = serializaveis vs"
| "serializavel (PDict kvs) = itens_serializaveis kvs"
| "serializavel PObject = False"
| "serializaveis [] = True"
| "serializaveis (v # vs) = (serializavel v \<and> serializaveis vs)"
| "itens_serializaveis [] = True"
| "itens_serializaveis ((k, v) # kvs) = (chave_ok k \<and> serializavel v \<and> itens_serializaveis kvs)"

text \<open>The text of a value that can be serialised. The default separators are \<open>", "\<close>
  between items and \<open>": "\<close> between a key and its value; a tuple is written as a list.\<close>

fun json_text :: "pyval \<Rightarrow> string"
  and text_elems :: "pyval list \<Rightarrow> string"
  and text_items :: "(pyval \<times> pyval) list \<Rightarrow> string" where
  "json_text PNone = ''null''"
| "json_text (PBool b) = (if b then ''true'' else ''false'')"
| "json_text (PInt i) = str_int i"
| "json_text (PStr s) = encode_basestring s"
| "json_text (PList vs) = CHR ''['' # text_elems vs @ '']''"
| "json_text (PTuple vs) = CHR ''['' # text_elems vs @ '']''"
| "json_text (PDict kvs) = CHR ''{'' # text_items kvs @ ''}''"
| "json_text PObject = []"
| "text_elems [] = []"
| "text_elems (v # vs) = json_text v @ (if vs = [] then [] else '', '' @ text_elems vs)"
| "text_items [] = []"
| "text_items ((k, v) # kvs) =
     encode_basestring (chave_text k) @ '': '' @ json_text v @
     (if kvs = [] then [] else '', '' @ text_items kvs)"

definition json_dumps :: "pyval \<Rightarrow> py_error + string" where
  "json_dumps v = (if serializavel v then Inr (json_text v) else Inl TypeError)"

definition p_opt_str :: "string option \<Rightarrow> pyval" where
  "p_opt_str x = (case x of None \<Rightarrow> PNone | Some s \<Rightarrow> PStr s)"

definition p_opt_id :: "nat option \<Rightarrow> pyval" where
  "p_opt_id x = (case x of None \<Rightarrow> PNone | Some n \<Rightarrow> PInt (int n))"

section \<open>The four tables\<close>

text \<open>
  Row ids are the values of \<open>INTEGER PRIMARY KEY AUTOINCREMENT\<close>. A \<open>DATETIME\<close> is kept as
  the number of seconds it denotes: SQLite stores the text \<open>YYYY-MM-DD HH:MM:SS\<close>, whose
  order as text is the order of these numbers, and \<open>DATE(t)\<close> is the day \<open>t div 86400\<close>.
  Columns that the schema lets be \<open>NULL\<close> and that the callers may leave empty are options;
  the \<open>NOT NULL\<close> columns and \<open>nivel_acesso\<close>, \<open>ativo\<close>, \<open>status\<close> take plain values.
  The clock is an argument of every method that writes: \<open>now\<close> is the value of
  \<open>CURRENT_TIMESTAMP\<close> during the call.
\<close>

record usuario =
  u_id :: nat
  u_usuario :: string
  u_senha :: string
  u_nome :: string
  u_email :: "string option"
  u_nivel_acesso :: string
  u_ativo :: bool
  u_data_cadastro :: int
  u_ultimo_login :: "int option"

record solicitante =
  s_id :: nat
  s_nome :: string
  s_email :: "string option"
  s_telefone :: "string option"
  s_departamento :: "string option"
  s_data_cadastro :: int

record protocolo =
  p_id :: nat
  p_numero_protocolo :: string
  p_titulo :: string
  p_descricao :: "string option"
  p_tipo_documento :: "string option"
  p_status :: string
  p_data_protocolo :: string
  p_data_prazo :: "string option"
  p_solicitante_id :: "nat option"
  p_observacoes :: "string option"
  p_criado_por :: "nat option"
  p_data_criacao :: int

record log_entry =
  l_id :: nat
  l_usuario_id :: "nat option"
  l_acao :: string
  l_tabela_afetada :: string
  l_registro_id :: "nat option"
  l_detalhes :: "string option"
  l_ip_address :: "string option"
  l_user_agent :: "string option"
  l_timestamp :: int
  l_status :: string

text \<open>Each table comes with the largest row id it has ever handed out (SQLite's
  \<open>sqlite_sequence\<close>): an insert takes the next one, and a deleted id is never reused.
  Every method of the source opens a connection of its own; the model applies the
  statements to the one database, in the order in which the source executes them.\<close>

record db =
  usuarios :: "usuario list"
  usuarios_seq :: nat
  solicitantes :: "solicitante list"
  solicitantes_seq :: nat
  protocolos :: "protocolo list"
  protocolos_seq :: nat
  logs_usuario :: "log_entry list"
  logs_seq :: nat

definition empty_db :: db where
  "empty_db = \<lparr>usuarios = [], usuarios_seq = 0, solicitantes = [], solicitantes_seq = 0,
               protocolos = [], protocolos_seq = 0, logs_usuario = [], logs_seq = 0\<rparr>"

section \<open>LogManager\<close>

text \<open>The details argument: \<open>None\<close>, a text, or a dictionary.\<close>

datatype detalhes = DNone | DTexto string | DDict "(pyval \<times> pyval) list"

text \<open>
  \<open>registrar_log\<close>: a dictionary is turned into its JSON text, anything else is taken as
  given; then one row is inserted, with \<open>CURRENT_TIMESTAMP\<close> as its timestamp. When
  \<open>json.dumps\<close> raises, nothing has been written yet. The ids are within the range of
  SQLite's \<open>INTEGER\<close>.
\<close>

definition detalhes_text :: "detalhes \<Rightarrow> py_error + string option" where
  "detalhes_text det =
     (case det of
        DNone \<Rightarrow> Inr None
      | DTexto s \<Rightarrow> Inr (Some s)
      | DDict m \<Rightarrow> (case json_dumps (PDict m) of Inl e \<Rightarrow> Inl e | Inr t \<Rightarrow> Inr (Some t)))"

definition registrar_log ::
  "nat option \<Rightarrow> string \<Rightarrow> string \<Rightarrow> nat option \<Rightarrow> detalhes \<Rightarrow> string \<Rightarrow>
   string option \<Rightarrow> string option \<Rightarrow> int \<Rightarrow> db \<Rightarrow> (py_error + unit) \<times> db" where
  "registrar_log usuario_id acao tabela_afetada registro_id det status ip_address user_agent now d =
     (case detalhes_text det of
        Inl e \<Rightarrow> (Inl e, d)
      | Inr texto \<Rightarrow>
          (Inr (),
           d\<lparr>logs_usuario := logs_usuario d @
                [\<lparr>l_id = Suc (logs_seq d), l_usuario_id = usuario_id, l_acao = acao,
                  l_tabela_afetada = tabela_afetada, l_registro_id = registro_id,
                  l_detalhes = texto, l_ip_address = ip_address,
                  l_user_agent = user_agent, l_timestamp = now, l_status = status\<rparr>],
             logs_seq := Suc (logs_seq d)\<rparr>))"

text \<open>What a method returns when the log call is its last statement before \<open>return\<close>:
  the exception of that call if it raised, else the method's own result.\<close>

definition apos_log :: "(py_error + unit) \<times> db \<Rightarrow> 'a \<Rightarrow> (py_error + 'a) \<times> db" where
  "apos_log r x = (case fst r of Inl e \<Rightarrow> (Inl e, snd r) | Inr u \<Rightarrow> (Inr x, snd r))"

section \<open>DatabaseManager\<close>

text \<open>\<open>hash_senha\<close> is the hexadecimal SHA-256 digest of the password's bytes. The digest
  comes from \<open>hashlib\<close>, which is no part of the repository: it is the parameter \<open>sha\<close>.\<close>

definition hash_senha :: "(string \<Rightarrow> string) \<Rightarrow> string \<Rightarrow> string" where
  "hash_senha sha senha = sha senha"

text \<open>\<open>init_database\<close>: the tables exist already in the model; the default administrator
  is inserted when no row has the level \<open>admin\<close>. The insert violates the \<open>UNIQUE\<close>
  constraint when the login \<open>admin\<close> is taken by a row of another level.\<close>

definition init_database :: "(string \<Rightarrow> string) \<Rightarrow> int \<Rightarrow> db \<Rightarrow> (py_error + unit) \<times> db" where
  "init_database sha now d =
     (if length (filter (\<lambda>u. u_nivel_acesso u = ''admin'') (usuarios d)) = 0
      then (if ''admin'' \<in> set (map u_usuario (usuarios d)) then (Inl IntegrityError, d)
            else (Inr (),
                  d\<lparr>usuarios := usuarios d @
                       [\<lparr>u_id = Suc (usuarios_seq d), u_usuario = ''admin'',
                         u_senha = hash_senha sha ''admin123'', u_nome = ''Administrador'',
                         u_email = None, u_nivel_acesso = ''admin'', u_ativo = True,
                         u_data_cadastro = now, u_ultimo_login = None\<rparr>],
                    usuarios_seq := Suc (usuarios_seq d)\<rparr>))
      else (Inr (), d))"

text \<open>\<open>gerar_numero_protocolo\<close> counts the rows of \<open>protocolos\<close> and formats the count plus
  one after the year of the local clock (\<open>ano\<close>). It reads the table and writes nothing:
  the database it leaves is the one it found.\<close>

definition gerar_numero_protocolo :: "nat \<Rightarrow> db \<Rightarrow> string \<times> db" where
  "gerar_numero_protocolo ano d =
     (let count = length (protocolos d)
      in (''PROT-'' @ str_nat ano @ ''-'' @ fmt_04d (count + 1), d))"

section \<open>AuthManager\<close>

text \<open>The tuple that \<open>login\<close> selects and the session keeps as \<open>user_data\<close>:
  positions 0 to 4 are id, usuario, nome, nivel_acesso, ativo. Both log calls of
  \<open>login\<close> pass a text as details, so they cannot raise, and \<open>login\<close> goes on with the
  database they leave.\<close>

record user_data =
  ud_id :: nat
  ud_usuario :: string
  ud_nome :: string
  ud_nivel_acesso :: string
  ud_ativo :: bool

definition login ::
  "(string \<Rightarrow> string) \<Rightarrow> string \<Rightarrow> string \<Rightarrow> int \<Rightarrow> db \<Rightarrow> user_data option \<times> db" where
  "login sha usuario senha now d =
     (let senha_hash = hash_senha sha senha
      in case find (\<lambda>u. u_usuario u = usuario \<and> u_senha u = senha_hash \<and> u_ativo u) (usuarios d) of
           Some u \<Rightarrow>
             (let user = \<lparr>ud_id = u_id u, ud_usuario = u_usuario u, ud_nome = u_nome u,
                          ud_nivel_acesso = u_nivel_acesso u, ud_ativo = u_ativo u\<rparr>;
                  d1 = d\<lparr>usuarios := map (\<lambda>r. if u_id r = ud_id user
                                                then r\<lparr>u_ultimo_login := Some now\<rparr> else r)
                                          (usuarios d)\<rparr>
              in (Some user,
                  snd (registrar_log (Some (ud_id user)) ''LOGIN'' ''usuarios'' (Some (ud_id user))
                         (DTexto (''Login realizado com sucesso para usu'' @ a_agudo @ ''rio: ''
                                  @ ud_usuario user))
                         ''sucesso'' None None now d1)))
         | None \<Rightarrow>
             (None,
              snd (registrar_log None ''LOGIN_FALHOU'' ''usuarios'' None
                     (DTexto (''Tentativa de login falhada para usu'' @ a_agudo @ ''rio: '' @ usuario))
                     ''erro'' None None now d)))"

text \<open>
  \<open>criar_usuario\<close>: on a login that is taken the insert raises
  \<open>sqlite3.IntegrityError\<close>. The handler calls \<open>registrar_log\<close> while the connection of
  the failed insert is still open with its write lock, so the insert of the log row,
  made through a second connection, finds the database locked: the handler raises
  \<open>sqlite3.OperationalError\<close>, no row is written and \<open>False\<close> is never returned.
\<close>

definition criar_usuario ::
  "(string \<Rightarrow> string) \<Rightarrow> string \<Rightarrow> string \<Rightarrow> string \<Rightarrow> string option \<Rightarrow> string \<Rightarrow> nat option \<Rightarrow>
   int \<Rightarrow> db \<Rightarrow> (py_error + bool) \<times> db" where
  "criar_usuario sha usuario senha nome email nivel_acesso criado_por_id now d =
     (let senha_hash = hash_senha sha senha
      in if usuario \<in> set (map u_usuario (usuarios d))
         then (Inl OperationalError, d)
         else (let novo_usuario_id = Suc (usuarios_seq d);
                   d1 = d\<lparr>usuarios := usuarios d @
                             [\<lparr>u_id = novo_usuario_id, u_usuario = usuario, u_senha = senha_hash,
                               u_nome = nome, u_email = email, u_nivel_acesso = nivel_acesso,
                               u_ativo = True, u_data_cadastro = now, u_ultimo_login = None\<rparr>],
                          usuarios_seq := novo_usuario_id\<rparr>
               in apos_log
                    (registrar_log criado_por_id ''CRIAR'' ''usuarios'' (Some novo_usuario_id)
                      (DDict [(PStr ''usuario_criado'', PStr usuario), (PStr ''nome'', PStr nome),
                              (PStr ''email'', p_opt_str email), (PStr ''nivel_acesso'', PStr nivel_acesso)])
                      ''sucesso'' None None now d1)
                    True))"

text \<open>\<open>atualizar_usuario\<close> reads the old row, updates, commits and then builds the log
  entry from the old row: when no row has the id, the update changes nothing and the
  subscript on \<open>None\<close> raises \<open>TypeError\<close> before anything is logged. The old value of
  \<open>ativo\<close> comes back from SQLite as 0 or 1, the new one is the Python boolean.\<close>

definition atualizar_usuario ::
  "nat \<Rightarrow> string \<Rightarrow> string option \<Rightarrow> string \<Rightarrow> bool \<Rightarrow> nat option \<Rightarrow> int \<Rightarrow> db \<Rightarrow>
   (py_error + bool) \<times> db" where
  "atualizar_usuario ident nome email nivel_acesso ativo atualizado_por_id now d =
     (case find (\<lambda>u. u_id u = ident) (usuarios d) of
        None \<Rightarrow> (Inl TypeError, d)
      | Some dados_antigos \<Rightarrow>
          (let d1 = d\<lparr>usuarios := map (\<lambda>u. if u_id u = ident
                                             then u\<lparr>u_nome := nome, u_email := email,
                                                    u_nivel_acesso := nivel_acesso,
                                                    u_ativo := ativo\<rparr>
                                             else u) (usuarios d)\<rparr>
           in apos_log
                (registrar_log atualizado_por_id ''ATUALIZAR'' ''usuarios'' (Some ident)
                  (DDict [(PStr ''campos_alterados'', PDict
                     [(PStr ''nome'', PDict [(PStr ''antes'', PStr (u_nome dados_antigos)),
                                       (PStr ''depois'', PStr nome)]),
                      (PStr ''email'', PDict [(PStr ''antes'', p_opt_str (u_email dados_antigos)),
                                        (PStr ''depois'', p_opt_str email)]),
                      (PStr ''nivel_acesso'', PDict [(PStr ''antes'', PStr (u_nivel_acesso dados_antigos)),
                                               (PStr ''depois'', PStr nivel_acesso)]),
                      (PStr ''ativo'', PDict [(PStr ''antes'', PInt (if u_ativo dados_antigos then 1 else 0)),
                                        (PStr ''depois'', PBool ativo)])])])
                  ''sucesso'' None None now d1)
                True))"

definition alterar_senha ::
  "(string \<Rightarrow> string) \<Rightarrow> nat \<Rightarrow> string \<Rightarrow> nat option \<Rightarrow> int \<Rightarrow> db \<Rightarrow> (py_error + bool) \<times> db" where
  "alterar_senha sha ident nova_senha alterado_por_id now d =
     (let senha_hash = hash_senha sha nova_senha;
          d1 = d\<lparr>usuarios := map (\<lambda>u. if u_id u = ident then u\<lparr>u_senha := senha_hash\<rparr> else u)
                                  (usuarios d)\<rparr>
      in apos_log
           (registrar_log alterado_por_id ''ALTERAR_SENHA'' ''usuarios'' (Some ident)
             (DTexto (''Senha alterada para usu'' @ a_agudo @ ''rio ID: '' @ str_nat ident))
             ''sucesso'' None None now d1)
           True)"

definition deletar_usuario :: "nat \<Rightarrow> nat option \<Rightarrow> int \<Rightarrow> db \<Rightarrow> (py_error + bool) \<times> db" where
  "deletar_usuario ident deletado_por_id now d =
     (case find (\<lambda>u. u_id u = ident) (usuarios d) of
        None \<Rightarrow> (Inl TypeError, d)
      | Some dados_usuario \<Rightarrow>
          (let d1 = d\<lparr>usuarios := filter (\<lambda>u. u_id u \<noteq> ident) (usuarios d)\<rparr>
           in apos_log
                (registrar_log deletado_por_id ''DELETAR'' ''usuarios'' (Some ident)
                  (DDict [(PStr ''usuario_deletado'', PStr (u_usuario dados_usuario)),
                          (PStr ''nome_deletado'', PStr (u_nome dados_usuario))])
                  ''sucesso'' None None now d1)
                True))"

section \<open>SolicitantesCRUD\<close>

text \<open>The methods \<open>criar\<close>, \<open>atualizar\<close> and \<open>deletar\<close> of the two CRUD classes carry the
  name of their table here.\<close>

definition criar_solicitante ::
  "string \<Rightarrow> string option \<Rightarrow> string option \<Rightarrow> string option \<Rightarrow> nat option \<Rightarrow> int \<Rightarrow> db \<Rightarrow>
   (py_error + bool) \<times> db" where
  "criar_solicitante nome email telefone departamento criado_por_id now d =
     (let solicitante_id = Suc (solicitantes_seq d);
          d1 = d\<lparr>solicitantes := solicitantes d @
                    [\<lparr>s_id = solicitante_id, s_nome = nome, s_email = email,
                      s_telefone = telefone, s_departamento = departamento,
                      s_data_cadastro = now\<rparr>],
                 solicitantes_seq := solicitante_id\<rparr>
      in apos_log
           (registrar_log criado_por_id ''CRIAR'' ''solicitantes'' (Some solicitante_id)
             (DDict [(PStr ''nome'', PStr nome), (PStr ''email'', p_opt_str email),
                     (PStr ''telefone'', p_opt_str telefone),
                     (PStr ''departamento'', p_opt_str departamento)])
             ''sucesso'' None None now d1)
           True)"

definition atualizar_solicitante ::
  "nat \<Rightarrow> string \<Rightarrow> string option \<Rightarrow> string option \<Rightarrow> string option \<Rightarrow> nat option \<Rightarrow> int \<Rightarrow> db \<Rightarrow>
   (py_error + bool) \<times> db" where
  "atualizar_solicitante ident nome email telefone departamento atualizado_por_id now d =
     (case find (\<lambda>s. s_id s = ident) (solicitantes d) of
        None \<Rightarrow> (Inl TypeError, d)
      | Some dados_antigos \<Rightarrow>
          (let d1 = d\<lparr>solicitantes := map (\<lambda>s. if s_id s = ident
                                                 then s\<lparr>s_nome := nome, s_email := email,
                                                        s_telefone := telefone,
                                                        s_departamento := departamento\<rparr>
                                                 else s) (solicitantes d)\<rparr>
           in apos_log
                (registrar_log atualizado_por_id ''ATUALIZAR'' ''solicitantes'' (Some ident)
                  (DDict [(PStr ''campos_alterados'', PDict
                     [(PStr ''nome'', PDict [(PStr ''antes'', PStr (s_nome dados_antigos)),
                                       (PStr ''depois'', PStr nome)]),
                      (PStr ''email'', PDict [(PStr ''antes'', p_opt_str (s_email dados_antigos)),
                                        (PStr ''depois'', p_opt_str email)]),
                      (PStr ''telefone'', PDict [(PStr ''antes'', p_opt_str (s_telefone dados_antigos)),
                                           (PStr ''depois'', p_opt_str telefone)]),
                      (PStr ''departamento'', PDict
                         [(PStr ''antes'', p_opt_str (s_departamento dados_antigos)),
                          (PStr ''depois'', p_opt_str departamento)])])])
                  ''sucesso'' None None now d1)
                True))"

text \<open>\<open>deletar\<close> subscripts the fetched row before it deletes: a missing id raises
  \<open>TypeError\<close> at once.\<close>

definition deletar_solicitante :: "nat \<Rightarrow> nat option \<Rightarrow> int \<Rightarrow> db \<Rightarrow> (py_error + bool) \<times> db" where
  "deletar_solicitante ident deletado_por_id now d =
     (case find (\<lambda>s. s_id s = ident) (solicitantes d) of
        None \<Rightarrow> (Inl TypeError, d)
      | Some row \<Rightarrow>
          (let nome_solicitante = s_nome row;
               d1 = d\<lparr>solicitantes := filter (\<lambda>s. s_id s \<noteq> ident) (solicitantes d)\<rparr>
           in apos_log
                (registrar_log deletado_por_id ''DELETAR'' ''solicitantes'' (Some ident)
                  (DTexto (''Solicitante deletado: '' @ nome_solicitante))
                  ''sucesso'' None None now d1)
                True))"

section \<open>ProtocolosCRUD\<close>

text \<open>\<open>criar\<close>: the number is generated, the row inserted with the default status
  \<open>Pendente\<close>; a number that the table holds already violates the \<open>UNIQUE\<close> constraint,
  and this \<open>IntegrityError\<close> is not caught.\<close>

definition criar_protocolo ::
  "string \<Rightarrow> string option \<Rightarrow> string option \<Rightarrow> string \<Rightarrow> string option \<Rightarrow> nat option \<Rightarrow>
   string option \<Rightarrow> nat option \<Rightarrow> nat \<Rightarrow> int \<Rightarrow> db \<Rightarrow> (py_error + string) \<times> db" where
  "criar_protocolo titulo descricao tipo_documento data_protocolo data_prazo solicitante_id
                   observacoes criado_por ano now d =
     (let numero_protocolo = fst (gerar_numero_protocolo ano d)
      in if numero_protocolo \<in> set (map p_numero_protocolo (protocolos d))
         then (Inl IntegrityError, d)
         else (let protocolo_id = Suc (protocolos_seq d);
                   d1 = d\<lparr>protocolos := protocolos d @
                             [\<lparr>p_id = protocolo_id, p_numero_protocolo = numero_protocolo,
                               p_titulo = titulo, p_descricao = descricao,
                               p_tipo_documento = tipo_documento, p_status = ''Pendente'',
                               p_data_protocolo = data_protocolo, p_data_prazo = data_prazo,
                               p_solicitante_id = solicitante_id, p_observacoes = observacoes,
                               p_criado_por = criado_por, p_data_criacao = now\<rparr>],
                          protocolos_seq := protocolo_id\<rparr>
               in apos_log
                    (registrar_log criado_por ''CRIAR'' ''protocolos'' (Some protocolo_id)
                      (DDict [(PStr ''numero_protocolo'', PStr numero_protocolo),
                              (PStr ''titulo'', PStr titulo),
                              (PStr ''tipo_documento'', p_opt_str tipo_documento),
                              (PStr ''solicitante_id'', p_opt_id solicitante_id)])
                      ''sucesso'' None None now d1)
                    numero_protocolo))"

text \<open>\<open>atualizar\<close>: the \<open>SET\<close> list of the update names titulo, descricao, tipo_documento,
  status, data_protocolo, data_prazo, solicitante_id and observacoes.\<close>

definition atualizar_protocolo ::
  "nat \<Rightarrow> string \<Rightarrow> string option \<Rightarrow> string option \<Rightarrow> string \<Rightarrow> string \<Rightarrow> string option \<Rightarrow>
   nat option \<Rightarrow> string option \<Rightarrow> nat option \<Rightarrow> int \<Rightarrow> db \<Rightarrow> (py_error + bool) \<times> db" where
  "atualizar_protocolo ident titulo descricao tipo_documento status data_protocolo data_prazo
                       solicitante_id observacoes atualizado_por_id now d =
     (case find (\<lambda>p. p_id p = ident) (protocolos d) of
        None \<Rightarrow> (Inl TypeError, d)
      | Some dados_antigos \<Rightarrow>
          (let d1 = d\<lparr>protocolos := map (\<lambda>p. if p_id p = ident
                                               then p\<lparr>p_titulo := titulo, p_descricao := descricao,
                                                      p_tipo_documento := tipo_documento,
                                                      p_status := status,
                                                      p_data_protocolo := data_protocolo,
                                                      p_data_prazo := data_prazo,
                                                      p_solicitante_id := solicitante_id,
                                                      p_observacoes := observacoes\<rparr>
                                               else p) (protocolos d)\<rparr>
           in apos_log
                (registrar_log atualizado_por_id ''ATUALIZAR'' ''protocolos'' (Some ident)
                  (DDict [(PStr ''numero_protocolo'', PStr (p_numero_protocolo dados_antigos)),
                          (PStr ''campos_alterados'', PDict
                     [(PStr ''titulo'', PDict [(PStr ''antes'', PStr (p_titulo dados_antigos)),
                                         (PStr ''depois'', PStr titulo)]),
                      (PStr ''status'', PDict [(PStr ''antes'', PStr (p_status dados_antigos)),
                                         (PStr ''depois'', PStr status)]),
                      (PStr ''tipo_documento'', PDict
                         [(PStr ''antes'', p_opt_str (p_tipo_documento dados_antigos)),
                          (PStr ''depois'', p_opt_str tipo_documento)])])])
                  ''sucesso'' None None now d1)
                True))"

definition deletar_protocolo :: "nat \<Rightarrow> nat option \<Rightarrow> int \<Rightarrow> db \<Rightarrow> (py_error + bool) \<times> db" where
  "deletar_protocolo ident deletado_por_id now d =
     (case find (\<lambda>p. p_id p = ident) (protocolos d) of
        None \<Rightarrow> (Inl TypeError, d)
      | Some dados_protocolo \<Rightarrow>
          (let d1 = d\<lparr>protocolos := filter (\<lambda>p. p_id p \<noteq> ident) (protocolos d)\<rparr>
           in apos_log
                (registrar_log deletado_por_id ''DELETAR'' ''protocolos'' (Some ident)
                  (DDict [(PStr ''numero_protocolo'', PStr (p_numero_protocolo dados_protocolo)),
                          (PStr ''titulo'', PStr (p_titulo dados_protocolo))])
                  ''sucesso'' None None now d1)
                True))"

text \<open>A value of a fetched row. \<open>STime\<close> is a \<open>DATETIME\<close> text, kept as its seconds.\<close>

datatype sqlval = SNull | SInt int | SText string | STime int

definition s_opt_text :: "string option \<Rightarrow> sqlval" where
  "s_opt_text x = (case x of None \<Rightarrow> SNull | Some s \<Rightarrow> SText s)"

definition s_opt_id :: "nat option \<Rightarrow> sqlval" where
  "s_opt_id x = (case x of None \<Rightarrow> SNull | Some n \<Rightarrow> SInt (int n))"

text \<open>\<open>SELECT * FROM protocolos\<close>: the twelve columns in the order of the
  \<open>CREATE TABLE\<close> statement.\<close>

definition select_star_protocolo :: "protocolo \<Rightarrow> sqlval list" where
  "select_star_protocolo p =
     [SInt (int (p_id p)), SText (p_numero_protocolo p), SText (p_titulo p),
      s_opt_text (p_descricao p), s_opt_text (p_tipo_documento p), SText (p_status p),
      SText (p_data_protocolo p), s_opt_text (p_data_prazo p), s_opt_id (p_solicitante_id p),
      s_opt_text (p_observacoes p), s_opt_id (p_criado_por p), STime (p_data_criacao p)]"

definition colunas_protocolos :: "string list" where
  "colunas_protocolos =
     [''id'', ''numero_protocolo'', ''titulo'', ''descricao'', ''tipo_documento'', ''status'',
      ''data_protocolo'', ''data_prazo'', ''solicitante_id'', ''observacoes'', ''criado_por'',
      ''data_criacao'']"

definition buscar_por_id :: "nat \<Rightarrow> db \<Rightarrow> sqlval list option" where
  "buscar_por_id ident d = map_option select_star_protocolo (find (\<lambda>p. p_id p = ident) (protocolos d))"

text \<open>\<open>listar\<close>: a row of the data frame is the list of its labelled values,
  \<open>p.*\<close> followed by the two names of the left joins; the rows come by descending
  protocol number, and a level other than \<open>admin\<close> keeps the rows of the given creator.\<close>

definition linha_listar :: "db \<Rightarrow> protocolo \<Rightarrow> (string \<times> sqlval) list" where
  "linha_listar d p =
     zip colunas_protocolos (select_star_protocolo p) @
     [(''solicitante_nome'',
       (case p_solicitante_id p of None \<Rightarrow> SNull
        | Some i \<Rightarrow> s_opt_text (map_option s_nome (find (\<lambda>s. s_id s = i) (solicitantes d))))),
      (''criado_por_nome'',
       (case p_criado_por p of None \<Rightarrow> SNull
        | Some i \<Rightarrow> s_opt_text (map_option u_nome (find (\<lambda>u. u_id u = i) (usuarios d)))))]"

definition listar :: "nat option \<Rightarrow> string \<Rightarrow> db \<Rightarrow> (string \<times> sqlval) list list" where
  "listar usuario_id nivel_acesso d =
     (let rows = (if nivel_acesso = ''admin'' then protocolos d
                  else filter (\<lambda>p. usuario_id \<noteq> None \<and> p_criado_por p = usuario_id) (protocolos d))
      in map (linha_listar d) (rev (sort_key p_numero_protocolo rows)))"

section \<open>Access checks\<close>

text \<open>\<open>verificar_permissao\<close> reads the level at position 3 of the session's \<open>user_data\<close>;
  the session is \<open>None\<close> when nobody is logged in.\<close>

definition verificar_permissao :: "user_data option \<Rightarrow> string \<Rightarrow> bool" where
  "verificar_permissao session nivel_requerido =
     (case session of
        None \<Rightarrow> False
      | Some ud \<Rightarrow>
          (let user_level = ud_nivel_acesso ud
           in if nivel_requerido = ''admin'' then user_level = ''admin''
              else if nivel_requerido = ''usuario'' then user_level \<in> set [''admin'', ''usuario'']
              else False))"

text \<open>The edit form of \<open>gerenciar_protocolos\<close> works on the tuple of \<open>buscar_por_id\<close>:
  the creator is taken at index 10 when the tuple is longer than 10, else at index 9
  when it is longer than 9, else it stays \<open>None\<close>.\<close>

definition pode_editar_edicao :: "user_data \<Rightarrow> sqlval list \<Rightarrow> bool" where
  "pode_editar_edicao ud protocolo_data =
     (let is_admin = (ud_nivel_acesso ud = ''admin'');
          current_user_id = ud_id ud;
          protocolo_criado_por =
            (if length protocolo_data > 10 then protocolo_data ! 10
             else if length protocolo_data > 9 then protocolo_data ! 9
             else SNull)
      in is_admin \<or> protocolo_criado_por = SInt (int current_user_id))"

text \<open>The list view works on a row of \<open>listar\<close> and looks the creator up under the
  labels \<open>criado_por_id\<close>, \<open>criado_por\<close>, \<open>user_id\<close>, in this order.\<close>

definition pode_editar_lista :: "user_data \<Rightarrow> (string \<times> sqlval) list \<Rightarrow> bool" where
  "pode_editar_lista ud protocolo =
     (let is_admin = (ud_nivel_acesso ud = ''admin'');
          current_user_id = ud_id ud;
          protocolo_criado_por_id =
            (case map_of protocolo ''criado_por_id'' of
               Some v \<Rightarrow> v
             | None \<Rightarrow>
                 (case map_of protocolo ''criado_por'' of
                    Some v \<Rightarrow> v
                  | None \<Rightarrow>
                      (case map_of protocolo ''user_id'' of Some v \<Rightarrow> v | None \<Rightarrow> SNull)))
      in is_admin \<or> protocolo_criado_por_id = SInt (int current_user_id))"

section \<open>LogManager: queries\<close>

text \<open>The left join of a log row with \<open>usuarios\<close>: the name of the actor, \<open>NULL\<close> when the
  actor is \<open>NULL\<close> or no user has this id.\<close>

definition usuario_nome_de :: "db \<Rightarrow> nat option \<Rightarrow> string option" where
  "usuario_nome_de d uid =
     (case uid of None \<Rightarrow> None
      | Some i \<Rightarrow> map_option u_nome (find (\<lambda>u. u_id u = i) (usuarios d)))"

text \<open>
  \<open>buscar_logs\<close>, with its \<open>WHERE\<close> clause as \<open>where_logs\<close>: a filter applies when its
  argument is truthy (not \<open>None\<close>, not 0, not the empty string); the two dates are day
  numbers compared with \<open>DATE(timestamp)\<close>. The rows come by descending timestamp; SQL
  leaves the order of rows with equal timestamps open, and the model keeps them in
  insertion order. A negative \<open>LIMIT\<close> is no limit in SQLite.
\<close>

definition where_logs ::
  "nat option \<Rightarrow> string option \<Rightarrow> string option \<Rightarrow> int option \<Rightarrow> int option \<Rightarrow> log_entry \<Rightarrow> bool" where
  "where_logs filtro_usuario filtro_tabela filtro_acao data_inicio data_fim l =
     ((case filtro_usuario of None \<Rightarrow> True
       | Some u \<Rightarrow> u = 0 \<or> l_usuario_id l = Some u) \<and>
      (case filtro_tabela of None \<Rightarrow> True
       | Some t \<Rightarrow> t = [] \<or> l_tabela_afetada l = t) \<and>
      (case filtro_acao of None \<Rightarrow> True
       | Some a \<Rightarrow> a = [] \<or> l_acao l = a) \<and>
      (case data_inicio of None \<Rightarrow> True
       | Some di \<Rightarrow> l_timestamp l div 86400 \<ge> di) \<and>
      (case data_fim of None \<Rightarrow> True
       | Some df \<Rightarrow> l_timestamp l div 86400 \<le> df))"

definition buscar_logs ::
  "nat option \<Rightarrow> string option \<Rightarrow> string option \<Rightarrow> int option \<Rightarrow> int option \<Rightarrow> int \<Rightarrow> db \<Rightarrow>
   (log_entry \<times> string option) list" where
  "buscar_logs filtro_usuario filtro_tabela filtro_acao data_inicio data_fim limite d =
     (let rows = filter (where_logs filtro_usuario filtro_tabela filtro_acao data_inicio data_fim)
                   (logs_usuario d);
          ordered = sort_key (\<lambda>l. - l_timestamp l) rows;
          limited = (if limite < 0 then ordered else take (nat limite) ordered)
      in map (\<lambda>l. (l, usuario_nome_de d (l_usuario_id l))) limited)"

text \<open>\<open>GROUP BY\<close> with \<open>COUNT(*)\<close>: one row for each key that occurs, with the number of
  its occurrences; \<open>ORDER BY total DESC\<close> on such rows. SQL leaves the order of groups
  with equal counts open, and the model fixes one.\<close>

definition contar_grupos :: "'k list \<Rightarrow> ('k \<times> nat) list" where
  "contar_grupos ks = map (\<lambda>k. (k, count_list ks k)) (remdups ks)"

definition ordenar_total_desc :: "('k \<times> nat) list \<Rightarrow> ('k \<times> nat) list" where
  "ordenar_total_desc gs = sort_key (\<lambda>g. - int (snd g)) gs"

text \<open>
  \<open>estatisticas_logs\<close>, its three queries one by one. The second groups the joined rows by
  the actor's id and name and selects the name with the count. The third keeps the rows
  whose timestamp is not before \<open>datetime('now', '-30 days')\<close> and groups them by day,
  ascending.
\<close>

definition df_acoes :: "db \<Rightarrow> (string \<times> nat) list" where
  "df_acoes d = ordenar_total_desc (contar_grupos (map l_acao (logs_usuario d)))"

definition df_usuarios :: "db \<Rightarrow> (string option \<times> nat) list" where
  "df_usuarios d =
     map (\<lambda>g. (snd (fst g), snd g))
       (ordenar_total_desc
          (contar_grupos (map (\<lambda>l. (l_usuario_id l, usuario_nome_de d (l_usuario_id l)))
                              (logs_usuario d))))"

definition df_diario :: "int \<Rightarrow> db \<Rightarrow> (int \<times> nat) list" where
  "df_diario now d =
     (let rows = filter (\<lambda>l. l_timestamp l \<ge> now - 30 * 86400) (logs_usuario d);
          datas = map (\<lambda>l. l_timestamp l div 86400) rows
      in map (\<lambda>k. (k, count_list datas k)) (sort (remdups datas)))"

definition estatisticas_logs ::
  "int \<Rightarrow> db \<Rightarrow> (string \<times> nat) list \<times> (string option \<times> nat) list \<times> (int \<times> nat) list" where
  "estatisticas_logs now d = (df_acoes d, df_usuarios d, df_diario now d)"

section \<open>Reading a details text back\<close>

text \<open>
  The repository stores the JSON text and never decodes it; the reader of the log does,
  with \<open>json.loads\<close> of the Python standard library. The decoder below follows that
  function on the texts made of objects, arrays, strings, integers, \<open>true\<close>, \<open>false\<close>
  and \<open>null\<close>: white space is allowed around the punctuation, a string may not hold a raw
  control character, an integer has no leading zero. Fractions, exponents and \<open>\u\<close>
  escapes above 007f are outside of it and give \<open>None\<close>. An array is returned as a
  list, an object as a dictionary with string keys, built item by item: a key that
  comes again keeps its place and takes the new value. Nested values are parsed with a
  fuel that \<open>json_loads\<close> sets to the length of the text.
\<close>

definition is_ws :: "char \<Rightarrow> bool" where
  "is_ws c = (c = CHR '' '' \<or> c = CHR 0x09 \<or> c = CHR 0x0A \<or> c = CHR 0x0D)"

definition skip_ws :: "string \<Rightarrow> string" where
  "skip_ws s = dropWhile is_ws s"

text \<open>A JSON integer: an optional minus sign and a run of decimal digits.\<close>

definition is_digit :: "char \<Rightarrow> bool" where
  "is_digit c = (48 \<le> (of_char c :: nat) \<and> (of_char c :: nat) \<le> 57)"

definition digit_val :: "char \<Rightarrow> nat" where
  "digit_val c = of_char c - 48"

fun nat_of_digits :: "nat \<Rightarrow> string \<Rightarrow> nat" where
  "nat_of_digits acc [] = acc"
| "nat_of_digits acc (c # cs) = nat_of_digits (acc * 10 + digit_val c) cs"

definition parse_number :: "string \<Rightarrow> (pyval \<times> string) option" where
  "parse_number s =
     (let neg = (s \<noteq> [] \<and> hd s = CHR ''-'');
          s1 = (if neg then tl s else s);
          ds = takeWhile is_digit s1;
          rest = dropWhile is_digit s1
      in if ds = [] then None
         else if hd ds = CHR ''0'' \<and> length ds > 1 then None
         else if rest \<noteq> [] \<and> (hd rest = CHR ''.'' \<or> hd rest = CHR ''e'' \<or> hd rest = CHR ''E'') then None
         else Some (PInt (if neg then - int (nat_of_digits 0 ds) else int (nat_of_digits 0 ds)), rest))"

text \<open>The text of a string after its opening quote, up to the closing quote.\<close>

definition hex_val :: "char \<Rightarrow> nat option" where
  "hex_val c =
     (let n = (of_char c :: nat)
      in if 48 \<le> n \<and> n \<le> 57 then Some (n - 48)
         else if 97 \<le> n \<and> n \<le> 102 then Some (n - 87)
         else if 65 \<le> n \<and> n \<le> 70 then Some (n - 55)
         else None)"

definition decode_escape :: "string \<Rightarrow> (char \<times> string) option" where
  "decode_escape cs =
     (case cs of
        [] \<Rightarrow> None
      | e # r \<Rightarrow>
          if e = CHR 0x22 then Some (CHR 0x22, r)
          else if e = CHR 0x5C then Some (CHR 0x5C, r)
          else if e = CHR ''/'' then Some (CHR ''/'', r)
          else if e = CHR ''b'' then Some (CHR 0x08, r)
          else if e = CHR ''f'' then Some (CHR 0x0C, r)
          else if e = CHR ''n'' then Some (CHR 0x0A, r)
          else if e = CHR ''r'' then Some (CHR 0x0D, r)
          else if e = CHR ''t'' then Some (CHR 0x09, r)
          else if e = CHR ''u'' then
            (case r of
               a # b # c # d # r' \<Rightarrow>
                 (case (hex_val a, hex_val b, hex_val c, hex_val d) of
                    (Some x3, Some x2, Some x1, Some x0) \<Rightarrow>
                      (let n = ((x3 * 16 + x2) * 16 + x1) * 16 + x0
                       in if n < 128 then Some (char_of n, r') else None)
                  | _ \<Rightarrow> None)
             | _ \<Rightarrow> None)
          else None)"

function parse_chars :: "string \<Rightarrow> (string \<times> string) option" where
  "parse_chars [] = None"
| "parse_chars (c # cs) =
     (if c = CHR 0x22 then Some ([], cs)
      else if c = CHR 0x5C then
        (case decode_escape cs of
           None \<Rightarrow> None
         | Some (ch, r) \<Rightarrow> map_option (\<lambda>(x, t). (ch # x, t)) (parse_chars r))
      else if (of_char c :: nat) < 32 then None
      else map_option (\<lambda>(x, t). (c # x, t)) (parse_chars cs))"
  by pat_completeness auto
termination
  by (relation "measure length")
     (auto simp add: decode_escape_def Let_def split: list.splits if_splits option.splits)

text \<open>Storing an item in a dictionary, and the dictionary of a list of items.\<close>

fun dict_set :: "(pyval \<times> pyval) list \<Rightarrow> pyval \<Rightarrow> pyval \<Rightarrow> (pyval \<times> pyval) list" where
  "dict_set [] k v = [(k, v)]"
| "dict_set ((k', v') # r) k v = (if k' = k then (k', v) # r else (k', v') # dict_set r k v)"

definition dict_of_pairs :: "(string \<times> pyval) list \<Rightarrow> (pyval \<times> pyval) list" where
  "dict_of_pairs ps = foldl (\<lambda>m kv. dict_set m (PStr (fst kv)) (snd kv)) [] ps"

text \<open>A value, the elements of an array after its opening bracket, and the members of
  an object after its opening brace.\<close>

fun parse_value :: "nat \<Rightarrow> string \<Rightarrow> (pyval \<times> string) option"
  and parse_elems :: "nat \<Rightarrow> string \<Rightarrow> (pyval list \<times> string) option"
  and parse_members :: "nat \<Rightarrow> string \<Rightarrow> ((string \<times> pyval) list \<times> string) option" where
  "parse_value 0 s = None"
| "parse_value (Suc n) s =
     (case s of
        [] \<Rightarrow> None
      | c # r \<Rightarrow>
          if c = CHR ''{'' then
            (case skip_ws r of
               [] \<Rightarrow> None
             | c2 # r2 \<Rightarrow>
                 if c2 = CHR ''}'' then Some (PDict [], r2)
                 else map_option (\<lambda>(kvs, t). (PDict (dict_of_pairs kvs), t))
                        (parse_members n (c2 # r2)))
          else if c = CHR ''['' then
            (case skip_ws r of
               [] \<Rightarrow> None
             | c2 # r2 \<Rightarrow>
                 if c2 = CHR '']'' then Some (PList [], r2)
                 else map_option (\<lambda>(vs, t). (PList vs, t)) (parse_elems n (c2 # r2)))
          else if c = CHR 0x22 then map_option (\<lambda>(x, t). (PStr x, t)) (parse_chars r)
          else if take 4 s = ''null'' then Some (PNone, drop 4 s)
          else if take 4 s = ''true'' then Some (PBool True, drop 4 s)
          else if take 5 s = ''false'' then Some (PBool False, drop 5 s)
          else parse_number s)"
| "parse_elems 0 s = None"
| "parse_elems (Suc n) s =
     (case parse_value n s of
        None \<Rightarrow> None
      | Some (v, r1) \<Rightarrow>
          (case skip_ws r1 of
             [] \<Rightarrow> None
           | c1 # r2 \<Rightarrow>
               if c1 = CHR '']'' then Some ([v], r2)
               else if c1 = CHR '','' then
                 map_option (\<lambda>(vs, t). (v # vs, t)) (parse_elems n (skip_ws r2))
               else None))"
| "parse_members 0 s = None"
| "parse_members (Suc n) s =
     (case s of
        [] \<Rightarrow> None
      | c # r \<Rightarrow>
          if c \<noteq> CHR 0x22 then None
          else
            (case parse_chars r of
               None \<Rightarrow> None
             | Some (k, r1) \<Rightarrow>
                 (case skip_ws r1 of
                    [] \<Rightarrow> None
                  | c1 # r2 \<Rightarrow>
                      if c1 \<noteq> CHR '':'' then None
                      else
                        (case parse_value n (skip_ws r2) of
                           None \<Rightarrow> None
                         | Some (v, r3) \<Rightarrow>
                             (case skip_ws r3 of
                                [] \<Rightarrow> None
                              | c3 # r4 \<Rightarrow>
                                  if c3 = CHR ''}'' then Some ([(k, v)], r4)
                                  else if c3 = CHR '','' then
                                    map_option (\<lambda>(kvs, t). ((k, v) # kvs, t))
                                      (parse_members n (skip_ws r4))
                                  else None)))))"

definition json_loads :: "string \<Rightarrow> pyval option" where
  "json_loads s =
     (case parse_value (length s) (skip_ws s) of
        None \<Rightarrow> None
      | Some (v, r) \<Rightarrow> if skip_ws r = [] then Some v else None)"

text \<open>What may follow the digits of an integer: nothing, or a character that is neither a
  digit nor the start of a fraction or an exponent.\<close>

definition num_end :: "string \<Rightarrow> bool" where
  "num_end rest =
     (rest = [] \<or> (\<not> is_digit (hd rest) \<and> hd rest \<noteq> CHR ''.'' \<and> hd rest \<noteq> CHR ''e'' \<and> hd rest \<noteq> CHR ''E''))"

text \<open>
  The values that JSON has a form of its own for: \<open>None\<close>, booleans, ints, strings,
  lists of such values, and dictionaries whose keys are strings (distinct, as the keys
  of a dictionary are) and whose values are of this kind.
\<close>

definition chave_str :: "pyval \<Rightarrow> bool" where
  "chave_str k = (case k of PStr s \<Rightarrow> True | _ \<Rightarrow> False)"

fun json_nativo :: "pyval \<Rightarrow> bool"
  and json_nativos :: "pyval list \<Rightarrow> bool"
  and itens_nativos :: "(pyval \<times> pyval) list \<Rightarrow> bool" where
  "json_nativo PNone = True"
| "json_nativo (PBool b) = True"
| "json_nativo (PInt i) = True"
| "json_nativo (PStr s) = True"
| "json_nativo (PList vs) = json_nativos vs"
| "json_nativo (PTuple vs) = False"
| "json_nativo (PDict kvs) = (itens_nativos kvs \<and> distinct (map fst kvs))"
| "json_nativo PObject = False"
| "json_nativos [] = True"
| "json_nativos (v # vs) = (json_nativo v \<and> json_nativos vs)"
| "itens_nativos [] = True"
| "itens_nativos ((k, v) # kvs) = (chave_str k \<and> json_nativo v \<and> itens_nativos kvs)"


section \<open>Example data\<close>

text \<open>A stand-in for the digest, and a small database: three users (the third one
  inactive), one requester, one protocol created by user 2, four log rows on two days.\<close>

definition sha_teste :: "string \<Rightarrow> string" where
  "sha_teste s = rev s"

definition db_exemplo :: db where
  "db_exemplo =
     \<lparr>usuarios =
        [\<lparr>u_id = 1, u_usuario = ''admin'', u_senha = sha_teste ''admin123'',
          u_nome = ''Administrador'', u_email = None, u_nivel_acesso = ''admin'',
          u_ativo = True, u_data_cadastro = 900000, u_ultimo_login = None\<rparr>,
         \<lparr>u_id = 2, u_usuario = ''ana'', u_senha = sha_teste ''segredo'',
          u_nome = ''Ana'', u_email = Some ''ana@x.org'', u_nivel_acesso = ''usuario'',
          u_ativo = True, u_data_cadastro = 900100, u_ultimo_login = None\<rparr>,
         \<lparr>u_id = 3, u_usuario = ''rui'', u_senha = sha_teste ''abc'',
          u_nome = ''Rui'', u_email = None, u_nivel_acesso = ''usuario'',
          u_ativo = False, u_data_cadastro = 900200, u_ultimo_login = None\<rparr>],
      usuarios_seq = 3,
      solicitantes =
        [\<lparr>s_id = 1, s_nome = ''Ana'', s_email = None, s_telefone = None,
          s_departamento = Some ''HR'', s_data_cadastro = 900300\<rparr>],
      solicitantes_seq = 1,
      protocolos =
        [\<lparr>p_id = 1, p_numero_protocolo = ''PROT-2024-0001'', p_titulo = ''Memo'',
          p_descricao = None, p_tipo_documento = Some ''Memorando'', p_status = ''Pendente'',
          p_data_protocolo = ''2024-01-10'', p_data_prazo = None, p_solicitante_id = Some 1,
          p_observacoes = None, p_criado_por = Some 2, p_data_criacao = 5000000\<rparr>],
      protocolos_seq = 1,
      logs_usuario =
        [\<lparr>l_id = 1, l_usuario_id = Some 1, l_acao = ''LOGIN'', l_tabela_afetada = ''usuarios'',
          l_registro_id = Some 1, l_detalhes = None, l_ip_address = None,
          l_user_agent = None, l_timestamp = 1000000, l_status = ''sucesso''\<rparr>,
         \<lparr>l_id = 2, l_usuario_id = None, l_acao = ''LOGIN_FALHOU'',
          l_tabela_afetada = ''usuarios'', l_registro_id = None, l_detalhes = None,
          l_ip_address = None, l_user_agent = None, l_timestamp = 4999000,
          l_status = ''erro''\<rparr>,
         \<lparr>l_id = 3, l_usuario_id = Some 2, l_acao = ''CRIAR'', l_tabela_afetada = ''protocolos'',
          l_registro_id = Some 1, l_detalhes = None, l_ip_address = None,
          l_user_agent = None, l_timestamp = 5000000, l_status = ''sucesso''\<rparr>,
         \<lparr>l_id = 4, l_usuario_id = None, l_acao = ''LOGIN_FALHOU'',
          l_tabela_afetada = ''usuarios'', l_registro_id = None, l_detalhes = None,
          l_ip_address = None, l_user_agent = None, l_timestamp = 5100000,
          l_status = ''erro''\<rparr>],
      logs_seq = 4\<rparr>"

text \<open>A details dictionary with a list and nested dictionaries.\<close>

definition detalhes_exemplo :: "(pyval \<times> pyval) list" where
  "detalhes_exemplo =
     [(PStr ''numero_protocolo'', PStr ''PROT-2024-0001''),
      (PStr ''anexos'', PList [PInt 3, PNone, PList [], PBool True]),
      (PStr ''campos_alterados'',
       PDict [(PStr ''status'', PDict [(PStr ''antes'', PStr ''Pendente''),
                                      (PStr ''depois'', PStr ''Concluido'')])])]"

section \<open>Statement vocabulary\<close>

text \<open>Between \<open>d\<close> and \<open>d'\<close> exactly one log row was appended, and it names the given
  table and record id.\<close>

definition log_unico :: "db \<Rightarrow> db \<Rightarrow> string \<Rightarrow> nat \<Rightarrow> bool" where
  "log_unico d d' tabela ident =
     (length (logs_usuario d') = Suc (length (logs_usuario d)) \<and>
      butlast (logs_usuario d') = logs_usuario d \<and>
      l_tabela_afetada (last (logs_usuario d')) = tabela \<and>
      l_registro_id (last (logs_usuario d')) = Some ident)"

section \<open>Properties\<close>

subsection \<open>Auxiliary facts\<close>

lemma str_nat_1: "str_nat (Suc 0) = ''1''"
  by (simp add: str_nat.simps digit_char_def)

lemma str_nat_2: "str_nat 2 = ''2''"
  by (simp add: str_nat.simps digit_char_def)

lemma str_nat_2024: "str_nat 2024 = ''2024''"
  by (simp add: str_nat.simps digit_char_def)

lemma fmt_04d_1: "fmt_04d (Suc 0) = ''0001''"
  by (simp add: fmt_04d_def str_nat_1 numeral_3_eq_3)

lemma fmt_04d_2: "fmt_04d (Suc (Suc 0)) = ''0002''"
  using str_nat_2 by (simp add: fmt_04d_def numeral_2_eq_2 numeral_3_eq_3)

lemma length_fmt_04d: "length (fmt_04d n) = max 4 (length (str_nat n))"
  by (simp add: fmt_04d_def)

lemma find_id_None: "find (\<lambda>u. f u = i) xs = None \<longleftrightarrow> i \<notin> f ` set xs"
  by (induction xs) auto

lemma find_id_Some: "find (\<lambda>u. f u = i) xs = Some x \<Longrightarrow> i \<in> f ` set xs"
  by (induction xs) (auto split: if_splits)

lemma filter_map_upd:
  "(\<And>u. f (g u) = f u) \<Longrightarrow>
   filter (\<lambda>u. f u \<noteq> i) (map (\<lambda>u. if f u = i then g u else u) xs) = filter (\<lambda>u. f u \<noteq> i) xs"
  by (induction xs) auto

lemma serializavel_p_opt_str [simp]: "serializavel (p_opt_str x)"
  by (cases x) (simp_all add: p_opt_str_def)

lemma serializavel_p_opt_id [simp]: "serializavel (p_opt_id x)"
  by (cases x) (simp_all add: p_opt_id_def)

lemma chave_ok_PStr [simp]: "chave_ok (PStr s)"
  by (simp add: chave_ok_def)

lemma registrar_log_texto:
  "registrar_log uid acao tab rid (DTexto s) st ip ua now d =
     (Inr (),
      d\<lparr>logs_usuario := logs_usuario d @
           [\<lparr>l_id = Suc (logs_seq d), l_usuario_id = uid, l_acao = acao,
             l_tabela_afetada = tab, l_registro_id = rid, l_detalhes = Some s,
             l_ip_address = ip, l_user_agent = ua, l_timestamp = now, l_status = st\<rparr>],
        logs_seq := Suc (logs_seq d)\<rparr>)"
  by (simp add: registrar_log_def detalhes_text_def)

lemma registrar_log_dict:
  "itens_serializaveis m \<Longrightarrow>
   registrar_log uid acao tab rid (DDict m) st ip ua now d =
     (Inr (),
      d\<lparr>logs_usuario := logs_usuario d @
           [\<lparr>l_id = Suc (logs_seq d), l_usuario_id = uid, l_acao = acao,
             l_tabela_afetada = tab, l_registro_id = rid,
             l_detalhes = Some (json_text (PDict m)),
             l_ip_address = ip, l_user_agent = ua, l_timestamp = now, l_status = st\<rparr>],
        logs_seq := Suc (logs_seq d)\<rparr>)"
  by (simp add: registrar_log_def detalhes_text_def json_dumps_def)

lemmas registrar_log_ok = registrar_log_texto registrar_log_dict apos_log_def

subsection \<open>Access policy\<close>

text \<open>
  C5. The access check is a function of the required level and of the level held in the
  session, and has the truth table of the specification, where the role "user" is the
  level \<open>usuario\<close>: admin required and user held gives false; admin required and admin
  held gives true; user required gives true for admin and for user. The other fields of
  the session tuple play no part.
\<close>

theorem verificar_permissao_truth_table:
  "verificar_permissao (Some (ud\<lparr>ud_nivel_acesso := ''usuario''\<rparr>)) ''admin'' = False \<and>
   verificar_permissao (Some (ud\<lparr>ud_nivel_acesso := ''admin''\<rparr>)) ''admin'' = True \<and>
   verificar_permissao (Some (ud\<lparr>ud_nivel_acesso := ''admin''\<rparr>)) ''usuario'' = True \<and>
   verificar_permissao (Some (ud\<lparr>ud_nivel_acesso := ''usuario''\<rparr>)) ''usuario'' = True"
  by (simp add: verificar_permissao_def)

text \<open>
  C4. For every protocol row \<open>p\<close> and every logged-in user \<open>v\<close>, both edit checks of
  \<open>gerenciar_protocolos\<close> (the one of the edit form, on the tuple fetched by id, and the
  one of the list view, on a row of \<open>listar\<close>) are true exactly when the level of \<open>v\<close> is
  \<open>admin\<close> or the id of \<open>v\<close> is the protocol's \<open>criado_por\<close>.
\<close>

theorem pode_editar_admin_or_creator:
  "pode_editar_edicao v (select_star_protocolo p) =
     (ud_nivel_acesso v = ''admin'' \<or> p_criado_por p = Some (ud_id v)) \<and>
   pode_editar_lista v (linha_listar d p) =
     (ud_nivel_acesso v = ''admin'' \<or> p_criado_por p = Some (ud_id v))"
proof (cases "p_criado_por p")
  case None
  then show ?thesis
    by (simp add: pode_editar_edicao_def pode_editar_lista_def linha_listar_def
        colunas_protocolos_def select_star_protocolo_def s_opt_id_def)
next
  case (Some c)
  then show ?thesis
    by (simp add: pode_editar_edicao_def pode_editar_lista_def linha_listar_def
        colunas_protocolos_def select_star_protocolo_def s_opt_id_def)
qed

subsection \<open>Protocol numbers\<close>

text \<open>
  C7. Whatever the arguments of \<open>atualizar\<close>, every protocol row keeps its id and its
  \<open>numero_protocolo\<close>: the update never names that column. This holds as well when no row
  has the id (the update changes nothing and the call raises).
\<close>

theorem atualizar_protocolo_keeps_numero:
  "map (\<lambda>p. (p_id p, p_numero_protocolo p))
     (protocolos (snd (atualizar_protocolo ident titulo descricao tipo_documento status
                         data_protocolo data_prazo solicitante_id observacoes por now d))) =
   map (\<lambda>p. (p_id p, p_numero_protocolo p)) (protocolos d)"
proof (cases "find (\<lambda>p. p_id p = ident) (protocolos d)")
  case None
  then show ?thesis by (simp add: atualizar_protocolo_def)
next
  case (Some old)
  then show ?thesis
    by (simp add: atualizar_protocolo_def Let_def registrar_log_ok comp_def)
qed

text \<open>
  C1, as amended. Every call of \<open>gerar_numero_protocolo\<close> returns \<open>PROT-\<close>, the year, a
  dash and the row count plus one in the format \<open>04d\<close>, and leaves the database as it
  was; so a second call with no insert in between returns the same number as the first.
  On an empty table the number is \<open>PROT-{year}-0001\<close>; \<open>criar\<close> then stores it, and the
  call after that insert returns \<open>PROT-{year}-0002\<close>.
\<close>

theorem gerar_numero_protocolo_count:
  "fst (gerar_numero_protocolo ano d) =
     ''PROT-'' @ str_nat ano @ ''-'' @ fmt_04d (length (protocolos d) + 1) \<and>
   snd (gerar_numero_protocolo ano d) = d \<and>
   fst (gerar_numero_protocolo ano (snd (gerar_numero_protocolo ano d))) =
     fst (gerar_numero_protocolo ano d) \<and>
   (protocolos d = [] \<longrightarrow>
      fst (gerar_numero_protocolo ano d) = ''PROT-'' @ str_nat ano @ ''-0001'' \<and>
      fst (criar_protocolo titulo descricao tipo data_protocolo data_prazo solicitante_id
             observacoes criado_por ano now d) = Inr (''PROT-'' @ str_nat ano @ ''-0001'') \<and>
      fst (gerar_numero_protocolo ano
             (snd (criar_protocolo titulo descricao tipo data_protocolo data_prazo
                     solicitante_id observacoes criado_por ano now d))) =
        ''PROT-'' @ str_nat ano @ ''-0002'')"
  by (simp add: gerar_numero_protocolo_def criar_protocolo_def Let_def registrar_log_ok
      fmt_04d_1 fmt_04d_2)

theorem gerar_numero_protocolo_count_witness:
  "protocolos empty_db = [] \<and>
   fst (gerar_numero_protocolo 2024 empty_db) = ''PROT-2024-0001'' \<and>
   fst (gerar_numero_protocolo 2024 (snd (gerar_numero_protocolo 2024 empty_db))) = ''PROT-2024-0001'' \<and>
   fst (criar_protocolo ''Memo'' None (Some ''Memorando'') ''2024-01-10'' None (Some 1) None
          (Some 1) 2024 5000000 empty_db) = Inr ''PROT-2024-0001'' \<and>
   fst (gerar_numero_protocolo 2024
          (snd (criar_protocolo ''Memo'' None (Some ''Memorando'') ''2024-01-10'' None (Some 1)
                  None (Some 1) 2024 5000000 empty_db))) = ''PROT-2024-0002''"
  using gerar_numero_protocolo_count [of 2024 empty_db "''Memo''" None "Some ''Memorando''"
      "''2024-01-10''" None "Some 1" None "Some 1" 5000000]
  by (simp add: empty_db_def str_nat_2024 fmt_04d_1)

text \<open>The claim as stated fails: on the empty table, with no insert in between, the
  second call returns \<open>PROT-2024-0001\<close> again, not \<open>PROT-2024-0002\<close>.\<close>

theorem gerar_numero_protocolo_twice_counterexample:
  "\<not> (fst (gerar_numero_protocolo 2024 empty_db) = ''PROT-2024-0001'' \<and>
      fst (gerar_numero_protocolo 2024 (snd (gerar_numero_protocolo 2024 empty_db))) =
        ''PROT-2024-0002'')"
  by (simp add: gerar_numero_protocolo_def empty_db_def Let_def fmt_04d_1 str_nat_2024)

subsection \<open>Failed logins\<close>

lemma distinct_map_eq:
  "distinct (map f xs) \<Longrightarrow> x \<in> set xs \<Longrightarrow> y \<in> set xs \<Longrightarrow> f x = f y \<Longrightarrow> x = y"
  by (simp add: distinct_map inj_on_def)

lemma find_None_set: "find P xs = None \<longleftrightarrow> (\<forall>x\<in>set xs. \<not> P x)"
  by (induction xs) auto

text \<open>
  C3. A login that no user has, and a login that a user has together with a password
  whose digest is not the stored one (logins being unique, as the schema demands), both
  make \<open>login\<close> return \<open>None\<close> and append exactly one log row, with the action
  \<open>LOGIN_FALHOU\<close>, no actor and the status \<open>erro\<close>.
\<close>

theorem login_falhou:
  assumes "usuario \<notin> u_usuario ` set (usuarios d) \<or>
           (distinct (map u_usuario (usuarios d)) \<and>
            (\<exists>u\<in>set (usuarios d). u_usuario u = usuario \<and> u_senha u \<noteq> hash_senha sha senha))"
  shows "fst (login sha usuario senha now d) = None \<and>
         length (logs_usuario (snd (login sha usuario senha now d))) = Suc (length (logs_usuario d)) \<and>
         butlast (logs_usuario (snd (login sha usuario senha now d))) = logs_usuario d \<and>
         l_acao (last (logs_usuario (snd (login sha usuario senha now d)))) = ''LOGIN_FALHOU'' \<and>
         l_usuario_id (last (logs_usuario (snd (login sha usuario senha now d)))) = None \<and>
         l_status (last (logs_usuario (snd (login sha usuario senha now d)))) = ''erro''"
proof -
  have "\<forall>r\<in>set (usuarios d). \<not> (u_usuario r = usuario \<and> u_senha r = hash_senha sha senha \<and> u_ativo r)"
    using assms
  proof
    assume "usuario \<notin> u_usuario ` set (usuarios d)"
    then show ?thesis by auto
  next
    assume b: "distinct (map u_usuario (usuarios d)) \<and>
            (\<exists>u\<in>set (usuarios d). u_usuario u = usuario \<and> u_senha u \<noteq> hash_senha sha senha)"
    then obtain u where u: "u \<in> set (usuarios d)" "u_usuario u = usuario"
      "u_senha u \<noteq> hash_senha sha senha" by blast
    show ?thesis
    proof
      fix r assume r: "r \<in> set (usuarios d)"
      show "\<not> (u_usuario r = usuario \<and> u_senha r = hash_senha sha senha \<and> u_ativo r)"
      proof
        assume m: "u_usuario r = usuario \<and> u_senha r = hash_senha sha senha \<and> u_ativo r"
        with b u r have "r = u" by (intro distinct_map_eq[of u_usuario "usuarios d"]) simp_all
        with m u show False by simp
      qed
    qed
  qed
  then have "find (\<lambda>u. u_usuario u = usuario \<and> u_senha u = hash_senha sha senha \<and> u_ativo u) (usuarios d) = None"
    by (simp add: find_None_set)
  then show ?thesis
    by (simp add: login_def Let_def registrar_log_ok)
qed

theorem login_falhou_witness:
  "''zed'' \<notin> u_usuario ` set (usuarios db_exemplo) \<and>
   fst (login sha_teste ''zed'' ''segredo'' 6000000 db_exemplo) = None \<and>
   l_acao (last (logs_usuario (snd (login sha_teste ''zed'' ''segredo'' 6000000 db_exemplo)))) = ''LOGIN_FALHOU'' \<and>
   distinct (map u_usuario (usuarios db_exemplo)) \<and>
   (\<exists>u\<in>set (usuarios db_exemplo). u_usuario u = ''ana'' \<and> u_senha u \<noteq> hash_senha sha_teste ''errada'') \<and>
   fst (login sha_teste ''ana'' ''errada'' 6000000 db_exemplo) = None \<and>
   l_acao (last (logs_usuario (snd (login sha_teste ''ana'' ''errada'' 6000000 db_exemplo)))) = ''LOGIN_FALHOU'' \<and>
   length (logs_usuario (snd (login sha_teste ''ana'' ''errada'' 6000000 db_exemplo))) = 5"
proof -
  have a: "''zed'' \<notin> u_usuario ` set (usuarios db_exemplo)"
    by (simp add: db_exemplo_def)
  have b: "distinct (map u_usuario (usuarios db_exemplo)) \<and>
     (\<exists>u\<in>set (usuarios db_exemplo). u_usuario u = ''ana'' \<and> u_senha u \<noteq> hash_senha sha_teste ''errada'')"
    by (simp add: db_exemplo_def hash_senha_def sha_teste_def)
  have n: "length (logs_usuario db_exemplo) = 4"
    by (simp add: db_exemplo_def)
  from a have "''zed'' \<notin> u_usuario ` set (usuarios db_exemplo) \<or>
           (distinct (map u_usuario (usuarios db_exemplo)) \<and>
            (\<exists>u\<in>set (usuarios db_exemplo). u_usuario u = ''zed'' \<and> u_senha u \<noteq> hash_senha sha_teste ''segredo''))"
    by (rule disjI1)
  note w1 = login_falhou [OF this, of 6000000]
  from b have "''ana'' \<notin> u_usuario ` set (usuarios db_exemplo) \<or>
           (distinct (map u_usuario (usuarios db_exemplo)) \<and>
            (\<exists>u\<in>set (usuarios db_exemplo). u_usuario u = ''ana'' \<and> u_senha u \<noteq> hash_senha sha_teste ''errada''))"
    by (rule disjI2)
  note w2 = login_falhou [OF this, of 6000000]
  from a b n w1 w2 show ?thesis by simp
qed

text \<open>
  C10. Whenever \<open>login\<close> returns \<open>None\<close> (wrong password, unknown login or inactive
  user), the three entity tables and their id counters are what they were, in particular
  no \<open>ultimo_login\<close> is written; the log has grown by exactly one row.
\<close>

theorem login_none_frame:
  "fst (login sha usuario senha now d) = None \<Longrightarrow>
   usuarios (snd (login sha usuario senha now d)) = usuarios d \<and>
   usuarios_seq (snd (login sha usuario senha now d)) = usuarios_seq d \<and>
   solicitantes (snd (login sha usuario senha now d)) = solicitantes d \<and>
   solicitantes_seq (snd (login sha usuario senha now d)) = solicitantes_seq d \<and>
   protocolos (snd (login sha usuario senha now d)) = protocolos d \<and>
   protocolos_seq (snd (login sha usuario senha now d)) = protocolos_seq d \<and>
   length (logs_usuario (snd (login sha usuario senha now d))) = Suc (length (logs_usuario d)) \<and>
   butlast (logs_usuario (snd (login sha usuario senha now d))) = logs_usuario d"
  by (cases "find (\<lambda>u. u_usuario u = usuario \<and> u_senha u = hash_senha sha senha \<and> u_ativo u) (usuarios d)")
     (simp_all add: login_def Let_def registrar_log_ok)

theorem login_none_frame_witness:
  "fst (login sha_teste ''rui'' ''abc'' 6000000 db_exemplo) = None \<and>
   usuarios (snd (login sha_teste ''rui'' ''abc'' 6000000 db_exemplo)) = usuarios db_exemplo \<and>
   length (logs_usuario (snd (login sha_teste ''rui'' ''abc'' 6000000 db_exemplo))) = 5"
proof -
  have h: "fst (login sha_teste ''rui'' ''abc'' 6000000 db_exemplo) = None"
    by (simp add: login_def db_exemplo_def hash_senha_def sha_teste_def)
  have "length (logs_usuario db_exemplo) = 4"
    by (simp add: db_exemplo_def)
  with login_none_frame [OF h] h show ?thesis by simp
qed

subsection \<open>Every mutation is logged once\<close>

text \<open>One fact for each of the nine registry methods: when the call succeeds, the row
  it names is the one written, and exactly one log row was appended for it.\<close>

lemma criar_usuario_log:
  "fst (criar_usuario sha usuario senha nome email nivel por now d) = Inr True \<longrightarrow>
   usuarios (snd (criar_usuario sha usuario senha nome email nivel por now d)) =
     usuarios d @ [last (usuarios (snd (criar_usuario sha usuario senha nome email nivel por now d)))] \<and>
   log_unico d (snd (criar_usuario sha usuario senha nome email nivel por now d)) ''usuarios''
     (u_id (last (usuarios (snd (criar_usuario sha usuario senha nome email nivel por now d)))))"
  by (simp add: criar_usuario_def Let_def log_unico_def registrar_log_ok)

lemma atualizar_usuario_log:
  "fst (atualizar_usuario iu nome email nivel ativo por now d) = Inr True \<longrightarrow>
   iu \<in> u_id ` set (usuarios d) \<and>
   filter (\<lambda>u. u_id u \<noteq> iu) (usuarios (snd (atualizar_usuario iu nome email nivel ativo por now d))) =
     filter (\<lambda>u. u_id u \<noteq> iu) (usuarios d) \<and>
   log_unico d (snd (atualizar_usuario iu nome email nivel ativo por now d)) ''usuarios'' iu"
proof (cases "find (\<lambda>u. u_id u = iu) (usuarios d)")
  case None
  then show ?thesis by (simp add: atualizar_usuario_def)
next
  case (Some old)
  have "filter (\<lambda>u. u_id u \<noteq> iu)
          (map (\<lambda>u. if u_id u = iu
                     then u\<lparr>u_nome := nome, u_email := email, u_nivel_acesso := nivel, u_ativo := ativo\<rparr>
                     else u) (usuarios d)) = filter (\<lambda>u. u_id u \<noteq> iu) (usuarios d)"
    by (rule filter_map_upd) simp
  with Some find_id_Some[OF Some] show ?thesis
    by (simp add: atualizar_usuario_def Let_def log_unico_def registrar_log_ok)
qed

lemma deletar_usuario_log:
  "fst (deletar_usuario iu por now d) = Inr True \<longrightarrow>
   iu \<in> u_id ` set (usuarios d) \<and>
   usuarios (snd (deletar_usuario iu por now d)) = filter (\<lambda>u. u_id u \<noteq> iu) (usuarios d) \<and>
   log_unico d (snd (deletar_usuario iu por now d)) ''usuarios'' iu"
proof (cases "find (\<lambda>u. u_id u = iu) (usuarios d)")
  case None
  then show ?thesis by (simp add: deletar_usuario_def)
next
  case (Some old)
  with find_id_Some[OF Some] show ?thesis
    by (simp add: deletar_usuario_def Let_def log_unico_def registrar_log_ok)
qed

lemma criar_solicitante_log:
  "fst (criar_solicitante nome email telefone departamento por now d) = Inr True \<longrightarrow>
   solicitantes (snd (criar_solicitante nome email telefone departamento por now d)) =
     solicitantes d @ [last (solicitantes (snd (criar_solicitante nome email telefone departamento por now d)))] \<and>
   log_unico d (snd (criar_solicitante nome email telefone departamento por now d)) ''solicitantes''
     (s_id (last (solicitantes (snd (criar_solicitante nome email telefone departamento por now d)))))"
  by (simp add: criar_solicitante_def Let_def log_unico_def registrar_log_ok)

lemma atualizar_solicitante_log:
  "fst (atualizar_solicitante i nome email telefone departamento por now d) = Inr True \<longrightarrow>
   i \<in> s_id ` set (solicitantes d) \<and>
   filter (\<lambda>s. s_id s \<noteq> i) (solicitantes (snd (atualizar_solicitante i nome email telefone departamento por now d))) =
     filter (\<lambda>s. s_id s \<noteq> i) (solicitantes d) \<and>
   log_unico d (snd (atualizar_solicitante i nome email telefone departamento por now d)) ''solicitantes'' i"
proof (cases "find (\<lambda>s. s_id s = i) (solicitantes d)")
  case None
  then show ?thesis by (simp add: atualizar_solicitante_def)
next
  case (Some old)
  have "filter (\<lambda>s. s_id s \<noteq> i)
          (map (\<lambda>s. if s_id s = i
                     then s\<lparr>s_nome := nome, s_email := email, s_telefone := telefone,
                            s_departamento := departamento\<rparr>
                     else s) (solicitantes d)) = filter (\<lambda>s. s_id s \<noteq> i) (solicitantes d)"
    by (rule filter_map_upd) simp
  with Some find_id_Some[OF Some] show ?thesis
    by (simp add: atualizar_solicitante_def Let_def log_unico_def registrar_log_ok)
qed

lemma deletar_solicitante_log:
  "fst (deletar_solicitante i por now d) = Inr True \<longrightarrow>
   i \<in> s_id ` set (solicitantes d) \<and>
   solicitantes (snd (deletar_solicitante i por now d)) = filter (\<lambda>s. s_id s \<noteq> i) (solicitantes d) \<and>
   log_unico d (snd (deletar_solicitante i por now d)) ''solicitantes'' i"
proof (cases "find (\<lambda>s. s_id s = i) (solicitantes d)")
  case None
  then show ?thesis by (simp add: deletar_solicitante_def)
next
  case (Some old)
  with find_id_Some[OF Some] show ?thesis
    by (simp add: deletar_solicitante_def Let_def log_unico_def registrar_log_ok)
qed

lemma criar_protocolo_log:
  "fst (criar_protocolo titulo descricao tipo data_protocolo data_prazo solicitante_id observacoes
          criado_por ano now d) = Inr (fst (gerar_numero_protocolo ano d)) \<longrightarrow>
   protocolos (snd (criar_protocolo titulo descricao tipo data_protocolo data_prazo solicitante_id
                      observacoes criado_por ano now d)) =
     protocolos d @ [last (protocolos (snd (criar_protocolo titulo descricao tipo data_protocolo
                                              data_prazo solicitante_id observacoes criado_por ano now d)))] \<and>
   log_unico d (snd (criar_protocolo titulo descricao tipo data_protocolo data_prazo solicitante_id
                       observacoes criado_por ano now d)) ''protocolos''
     (p_id (last (protocolos (snd (criar_protocolo titulo descricao tipo data_protocolo data_prazo
                                     solicitante_id observacoes criado_por ano now d)))))"
  by (simp add: criar_protocolo_def Let_def log_unico_def registrar_log_ok)

lemma atualizar_protocolo_log:
  "fst (atualizar_protocolo i titulo descricao tipo status data_protocolo data_prazo solicitante_id
          observacoes por now d) = Inr True \<longrightarrow>
   i \<in> p_id ` set (protocolos d) \<and>
   filter (\<lambda>p. p_id p \<noteq> i)
     (protocolos (snd (atualizar_protocolo i titulo descricao tipo status data_protocolo data_prazo
                         solicitante_id observacoes por now d))) =
     filter (\<lambda>p. p_id p \<noteq> i) (protocolos d) \<and>
   log_unico d (snd (atualizar_protocolo i titulo descricao tipo status data_protocolo data_prazo
                       solicitante_id observacoes por now d)) ''protocolos'' i"
proof (cases "find (\<lambda>p. p_id p = i) (protocolos d)")
  case None
  then show ?thesis by (simp add: atualizar_protocolo_def)
next
  case (Some old)
  have "filter (\<lambda>p. p_id p \<noteq> i)
          (map (\<lambda>p. if p_id p = i
                     then p\<lparr>p_titulo := titulo, p_descricao := descricao,
                            p_tipo_documento := tipo, p_status := status,
                            p_data_protocolo := data_protocolo, p_data_prazo := data_prazo,
                            p_solicitante_id := solicitante_id, p_observacoes := observacoes\<rparr>
                     else p) (protocolos d)) = filter (\<lambda>p. p_id p \<noteq> i) (protocolos d)"
    by (rule filter_map_upd) simp
  with Some find_id_Some[OF Some] show ?thesis
    by (simp add: atualizar_protocolo_def Let_def log_unico_def registrar_log_ok)
qed

lemma deletar_protocolo_log:
  "fst (deletar_protocolo i por now d) = Inr True \<longrightarrow>
   i \<in> p_id ` set (protocolos d) \<and>
   protocolos (snd (deletar_protocolo i por now d)) = filter (\<lambda>p. p_id p \<noteq> i) (protocolos d) \<and>
   log_unico d (snd (deletar_protocolo i por now d)) ''protocolos'' i"
proof (cases "find (\<lambda>p. p_id p = i) (protocolos d)")
  case None
  then show ?thesis by (simp add: deletar_protocolo_def)
next
  case (Some old)
  with find_id_Some[OF Some] show ?thesis
    by (simp add: deletar_protocolo_def Let_def log_unico_def registrar_log_ok)
qed

text \<open>
  C2. For each of the three registries (users, requesters, protocols), every successful
  create, update or delete appends exactly one log row whose \<open>tabela_afetada\<close> is the
  table of the registry and whose \<open>registro_id\<close> is the id of the row that was written:
  the row appended by a create, the row with the given id for an update (all other rows
  are untouched) and for a delete (exactly the rows with that id are removed). A call
  succeeds when it returns \<open>True\<close>, or the new number in the case of the protocol create.
\<close>

theorem crud_log_unico:
  "(fst (criar_usuario sha usuario senha nome email nivel por now d) = Inr True \<longrightarrow>
      usuarios (snd (criar_usuario sha usuario senha nome email nivel por now d)) =
        usuarios d @ [last (usuarios (snd (criar_usuario sha usuario senha nome email nivel por now d)))] \<and>
      log_unico d (snd (criar_usuario sha usuario senha nome email nivel por now d)) ''usuarios''
        (u_id (last (usuarios (snd (criar_usuario sha usuario senha nome email nivel por now d)))))) \<and>
   (fst (atualizar_usuario iu nome email nivel ativo por now d) = Inr True \<longrightarrow>
      iu \<in> u_id ` set (usuarios d) \<and>
      filter (\<lambda>u. u_id u \<noteq> iu) (usuarios (snd (atualizar_usuario iu nome email nivel ativo por now d))) =
        filter (\<lambda>u. u_id u \<noteq> iu) (usuarios d) \<and>
      log_unico d (snd (atualizar_usuario iu nome email nivel ativo por now d)) ''usuarios'' iu) \<and>
   (fst (deletar_usuario iu por now d) = Inr True \<longrightarrow>
      iu \<in> u_id ` set (usuarios d) \<and>
      usuarios (snd (deletar_usuario iu por now d)) = filter (\<lambda>u. u_id u \<noteq> iu) (usuarios d) \<and>
      log_unico d (snd (deletar_usuario iu por now d)) ''usuarios'' iu) \<and>
   (fst (criar_solicitante nome email telefone departamento por now d) = Inr True \<longrightarrow>
      solicitantes (snd (criar_solicitante nome email telefone departamento por now d)) =
        solicitantes d @ [last (solicitantes (snd (criar_solicitante nome email telefone departamento por now d)))] \<and>
      log_unico d (snd (criar_solicitante nome email telefone departamento por now d)) ''solicitantes''
        (s_id (last (solicitantes (snd (criar_solicitante nome email telefone departamento por now d)))))) \<and>
   (fst (atualizar_solicitante i nome email telefone departamento por now d) = Inr True \<longrightarrow>
      i \<in> s_id ` set (solicitantes d) \<and>
      filter (\<lambda>s. s_id s \<noteq> i) (solicitantes (snd (atualizar_solicitante i nome email telefone departamento por now d))) =
        filter (\<lambda>s. s_id s \<noteq> i) (solicitantes d) \<and>
      log_unico d (snd (atualizar_solicitante i nome email telefone departamento por now d)) ''solicitantes'' i) \<and>
   (fst (deletar_solicitante i por now d) = Inr True \<longrightarrow>
      i \<in> s_id ` set (solicitantes d) \<and>
      solicitantes (snd (deletar_solicitante i por now d)) = filter (\<lambda>s. s_id s \<noteq> i) (solicitantes d) \<and>
      log_unico d (snd (deletar_solicitante i por now d)) ''solicitantes'' i) \<and>
   (fst (criar_protocolo titulo descricao tipo data_protocolo data_prazo solicitante_id observacoes
             criado_por ano now d) = Inr (fst (gerar_numero_protocolo ano d)) \<longrightarrow>
      protocolos (snd (criar_protocolo titulo descricao tipo data_protocolo data_prazo solicitante_id
                         observacoes criado_por ano now d)) =
        protocolos d @ [last (protocolos (snd (criar_protocolo titulo descricao tipo data_protocolo
                                                 data_prazo solicitante_id observacoes criado_por ano now d)))] \<and>
      log_unico d (snd (criar_protocolo titulo descricao tipo data_protocolo data_prazo solicitante_id
                          observacoes criado_por ano now d)) ''protocolos''
        (p_id (last (protocolos (snd (criar_protocolo titulo descricao tipo data_protocolo data_prazo
                                        solicitante_id observacoes criado_por ano now d)))))) \<and>
   (fst (atualizar_protocolo i titulo descricao tipo status data_protocolo data_prazo solicitante_id
             observacoes por now d) = Inr True \<longrightarrow>
      i \<in> p_id ` set (protocolos d) \<and>
      filter (\<lambda>p. p_id p \<noteq> i)
        (protocolos (snd (atualizar_protocolo i titulo descricao tipo status data_protocolo data_prazo
                            solicitante_id observacoes por now d))) =
        filter (\<lambda>p. p_id p \<noteq> i) (protocolos d) \<and>
      log_unico d (snd (atualizar_protocolo i titulo descricao tipo status data_protocolo data_prazo
                          solicitante_id observacoes por now d)) ''protocolos'' i) \<and>
   (fst (deletar_protocolo i por now d) = Inr True \<longrightarrow>
      i \<in> p_id ` set (protocolos d) \<and>
      protocolos (snd (deletar_protocolo i por now d)) = filter (\<lambda>p. p_id p \<noteq> i) (protocolos d) \<and>
      log_unico d (snd (deletar_protocolo i por now d)) ''protocolos'' i)"
  by (intro conjI criar_usuario_log atualizar_usuario_log deletar_usuario_log criar_solicitante_log atualizar_solicitante_log deletar_solicitante_log criar_protocolo_log atualizar_protocolo_log deletar_protocolo_log)

theorem crud_log_unico_witness:
  "fst (criar_usuario sha_teste ''bia'' ''s3nha'' ''Bia'' None ''usuario'' (Some 1) 6000000 db_exemplo) = Inr True \<and>
   log_unico db_exemplo (snd (criar_usuario sha_teste ''bia'' ''s3nha'' ''Bia'' None ''usuario'' (Some 1) 6000000 db_exemplo)) ''usuarios''
     (u_id (last (usuarios (snd (criar_usuario sha_teste ''bia'' ''s3nha'' ''Bia'' None ''usuario'' (Some 1) 6000000 db_exemplo))))) \<and>
   fst (atualizar_usuario 2 ''Bia'' None ''usuario'' False (Some 1) 6000000 db_exemplo) = Inr True \<and>
   log_unico db_exemplo (snd (atualizar_usuario 2 ''Bia'' None ''usuario'' False (Some 1) 6000000 db_exemplo)) ''usuarios'' 2 \<and>
   fst (deletar_usuario 2 (Some 1) 6000000 db_exemplo) = Inr True \<and>
   log_unico db_exemplo (snd (deletar_usuario 2 (Some 1) 6000000 db_exemplo)) ''usuarios'' 2 \<and>
   fst (criar_solicitante ''Bia'' None None (Some ''TI'') (Some 1) 6000000 db_exemplo) = Inr True \<and>
   log_unico db_exemplo (snd (criar_solicitante ''Bia'' None None (Some ''TI'') (Some 1) 6000000 db_exemplo)) ''solicitantes''
     (s_id (last (solicitantes (snd (criar_solicitante ''Bia'' None None (Some ''TI'') (Some 1) 6000000 db_exemplo))))) \<and>
   fst (atualizar_solicitante 1 ''Bia'' None None (Some ''TI'') (Some 1) 6000000 db_exemplo) = Inr True \<and>
   log_unico db_exemplo (snd (atualizar_solicitante 1 ''Bia'' None None (Some ''TI'') (Some 1) 6000000 db_exemplo)) ''solicitantes'' 1 \<and>
   fst (deletar_solicitante 1 (Some 1) 6000000 db_exemplo) = Inr True \<and>
   log_unico db_exemplo (snd (deletar_solicitante 1 (Some 1) 6000000 db_exemplo)) ''solicitantes'' 1 \<and>
   fst (criar_protocolo ''Oficio'' None (Some ''Memorando'') ''2024-02-01'' None (Some 1) None (Some 2) 2024 6000000 db_exemplo)
     = Inr (fst (gerar_numero_protocolo 2024 db_exemplo)) \<and>
   log_unico db_exemplo (snd (criar_protocolo ''Oficio'' None (Some ''Memorando'') ''2024-02-01'' None (Some 1) None (Some 2) 2024 6000000 db_exemplo)) ''protocolos''
     (p_id (last (protocolos (snd (criar_protocolo ''Oficio'' None (Some ''Memorando'') ''2024-02-01'' None (Some 1) None (Some 2) 2024 6000000 db_exemplo))))) \<and>
   fst (atualizar_protocolo 1 ''Oficio'' None (Some ''Memorando'') ''Concluido'' ''2024-02-01'' None (Some 1) None (Some 1) 6000000 db_exemplo) = Inr True \<and>
   log_unico db_exemplo (snd (atualizar_protocolo 1 ''Oficio'' None (Some ''Memorando'') ''Concluido'' ''2024-02-01'' None (Some 1) None (Some 1) 6000000 db_exemplo)) ''protocolos'' 1 \<and>
   fst (deletar_protocolo 1 (Some 1) 6000000 db_exemplo) = Inr True \<and>
   log_unico db_exemplo (snd (deletar_protocolo 1 (Some 1) 6000000 db_exemplo)) ''protocolos'' 1"
proof -
  have h1: "fst (criar_usuario sha_teste ''bia'' ''s3nha'' ''Bia'' None ''usuario'' (Some 1) 6000000 db_exemplo) = Inr True"
    by (simp add: criar_usuario_def registrar_log_ok db_exemplo_def)
  have h2: "fst (atualizar_usuario 2 ''Bia'' None ''usuario'' False (Some 1) 6000000 db_exemplo) = Inr True"
    by (simp add: atualizar_usuario_def registrar_log_ok db_exemplo_def)
  have h3: "fst (deletar_usuario 2 (Some 1) 6000000 db_exemplo) = Inr True"
    by (simp add: deletar_usuario_def registrar_log_ok db_exemplo_def)
  have h4: "fst (criar_solicitante ''Bia'' None None (Some ''TI'') (Some 1) 6000000 db_exemplo) = Inr True"
    by (simp add: criar_solicitante_def registrar_log_ok)
  have h5: "fst (atualizar_solicitante 1 ''Bia'' None None (Some ''TI'') (Some 1) 6000000 db_exemplo) = Inr True"
    by (simp add: atualizar_solicitante_def registrar_log_ok db_exemplo_def)
  have h6: "fst (deletar_solicitante 1 (Some 1) 6000000 db_exemplo) = Inr True"
    by (simp add: deletar_solicitante_def registrar_log_ok db_exemplo_def)
  have h7: "fst (criar_protocolo ''Oficio'' None (Some ''Memorando'') ''2024-02-01'' None (Some 1) None (Some 2) 2024 6000000 db_exemplo)
     = Inr (fst (gerar_numero_protocolo 2024 db_exemplo))"
    by (simp add: criar_protocolo_def registrar_log_ok gerar_numero_protocolo_def db_exemplo_def fmt_04d_2 str_nat_2024 Let_def)
  have h8: "fst (atualizar_protocolo 1 ''Oficio'' None (Some ''Memorando'') ''Concluido'' ''2024-02-01'' None (Some 1) None (Some 1) 6000000 db_exemplo) = Inr True"
    by (simp add: atualizar_protocolo_def registrar_log_ok db_exemplo_def)
  have h9: "fst (deletar_protocolo 1 (Some 1) 6000000 db_exemplo) = Inr True"
    by (simp add: deletar_protocolo_def registrar_log_ok db_exemplo_def)
  note t = crud_log_unico [where sha = sha_teste and usuario = "''bia''" and senha = "''s3nha''"
      and nome = "''Bia''" and email = None and nivel = "''usuario''" and por = "Some 1"
      and now = 6000000 and d = db_exemplo and iu = 2 and ativo = False and telefone = None
      and departamento = "Some ''TI''" and i = 1 and titulo = "''Oficio''" and descricao = None
      and tipo = "Some ''Memorando''" and data_protocolo = "''2024-02-01''" and data_prazo = None
      and solicitante_id = "Some 1" and observacoes = None and criado_por = "Some 2"
      and ano = 2024 and status = "''Concluido''"]
  from t h1 h2 h3 h4 h5 h6 h7 h8 h9 show ?thesis by simp
qed

subsection \<open>Statistics of the log\<close>

lemma count_list_map_filter: "count_list (map f xs) k = length (filter (\<lambda>x. f x = k) xs)"
  by (induction xs) auto

lemma sum_list_count_remdups: "sum_list (map (count_list xs) (remdups xs)) = length xs"
proof -
  have "sum_list (map (count_list xs) (remdups xs)) = sum (count_list xs) (set (remdups xs))"
    by (rule sum_list_distinct_conv_sum_set) simp
  also have "\<dots> = length xs"
    by (simp add: sum_count_set)
  finally show ?thesis .
qed

lemma sum_list_contar_grupos: "sum_list (map snd (contar_grupos ks)) = length ks"
  by (simp add: contar_grupos_def comp_def sum_list_count_remdups)

lemma set_contar_grupos: "set (contar_grupos ks) = (\<lambda>k. (k, count_list ks k)) ` set ks"
  by (simp add: contar_grupos_def)

lemma set_ordenar_total_desc: "set (ordenar_total_desc gs) = set gs"
  by (simp add: ordenar_total_desc_def)

lemma sum_list_insort_key:
  "sum_list (map f (insort_key k x xs)) = (f x :: nat) + sum_list (map f xs)"
  by (induction xs) auto

lemma sum_list_sort_key:
  "sum_list (map f (sort_key k xs)) = (sum_list (map f xs) :: nat)"
  by (induction xs) (simp_all add: sum_list_insort_key)

lemma sum_list_ordenar_total_desc:
  "sum_list (map snd (ordenar_total_desc gs)) = sum_list (map snd gs)"
  by (simp add: ordenar_total_desc_def sum_list_sort_key)

lemma sorted_ordenar_total_desc: "sorted_wrt (\<lambda>a b. a \<ge> b) (map snd (ordenar_total_desc gs))"
proof -
  have "sorted (map (\<lambda>g. - int (snd g)) (ordenar_total_desc gs))"
    by (simp add: ordenar_total_desc_def)
  then have "sorted_wrt (\<lambda>a b. - int (snd a) \<le> - int (snd b)) (ordenar_total_desc gs)"
    by (simp add: sorted_wrt_map)
  then have "sorted_wrt (\<lambda>a b. snd a \<ge> snd b) (ordenar_total_desc gs)"
    by (rule sorted_wrt_mono_rel[rotated]) simp
  then show ?thesis by (simp add: sorted_wrt_map)
qed

lemma df_usuarios_exemplo:
  "df_usuarios db_exemplo = [(None, 2), (Some ''Administrador'', 1), (Some ''Ana'', 1)]"
  by (simp add: df_usuarios_def db_exemplo_def ordenar_total_desc_def contar_grupos_def usuario_nome_de_def)

lemma df_diario_exemplo: "df_diario 6000000 db_exemplo = [(57, 2), (59, 1)]"
  by (simp add: df_diario_def db_exemplo_def Let_def)

text \<open>
  C8. The counts by day are the third result of \<open>estatisticas_logs\<close>. They come in
  strictly ascending order of the date, so no date has two rows; the count of a date is
  the number of log rows of that date whose timestamp is not earlier than 30 days before
  the time of the query, and it is positive, so a date without such a row is absent;
  every row inside the window has its date in the result, and the counts add up to the
  number of rows inside the window. The query has no upper bound; when no timestamp is
  later than the time of the query (they are all set by the store at insertion), the
  counted rows are those between 30 days ago and now.
\<close>

theorem df_diario_janela:
  "snd (snd (estatisticas_logs now d)) = df_diario now d \<and>
   sorted_wrt (<) (map fst (df_diario now d)) \<and>
   (\<forall>(k, n) \<in> set (df_diario now d).
      0 < n \<and>
      n = length (filter (\<lambda>l. now - 30 * 86400 \<le> l_timestamp l \<and> l_timestamp l div 86400 = k)
                         (logs_usuario d))) \<and>
   (\<forall>l \<in> set (logs_usuario d).
      now - 30 * 86400 \<le> l_timestamp l \<longrightarrow> l_timestamp l div 86400 \<in> fst ` set (df_diario now d)) \<and>
   sum_list (map snd (df_diario now d)) =
     length (filter (\<lambda>l. now - 30 * 86400 \<le> l_timestamp l) (logs_usuario d)) \<and>
   ((\<forall>l \<in> set (logs_usuario d). l_timestamp l \<le> now) \<longrightarrow>
      (\<forall>(k, n) \<in> set (df_diario now d).
         n = length (filter (\<lambda>l. now - 30 * 86400 \<le> l_timestamp l \<and> l_timestamp l \<le> now \<and>
                                   l_timestamp l div 86400 = k) (logs_usuario d))))"
proof -
  define rows where "rows = filter (\<lambda>l. l_timestamp l \<ge> now - 30 * 86400) (logs_usuario d)"
  define datas where "datas = map (\<lambda>l. l_timestamp l div 86400) rows"
  have df: "df_diario now d = map (\<lambda>k. (k, count_list datas k)) (sort (remdups datas))"
    by (simp add: df_diario_def rows_def datas_def Let_def)
  have keys: "map fst (df_diario now d) = sort (remdups datas)"
    by (simp add: df comp_def)
  have a: "sorted_wrt (<) (map fst (df_diario now d))"
    by (simp add: keys strict_sorted_iff)
  have cnt: "count_list datas k =
      length (filter (\<lambda>l. now - 30 * 86400 \<le> l_timestamp l \<and> l_timestamp l div 86400 = k)
                     (logs_usuario d))" for k
    by (simp add: datas_def rows_def count_list_map_filter conj_commute)
  have b: "\<forall>(k, n) \<in> set (df_diario now d).
      0 < n \<and>
      n = length (filter (\<lambda>l. now - 30 * 86400 \<le> l_timestamp l \<and> l_timestamp l div 86400 = k)
                         (logs_usuario d))"
  proof (clarify, rule conjI)
    fix k n assume kn: "(k, n) \<in> set (df_diario now d)"
    then have k: "k \<in> set datas" and n: "n = count_list datas k"
      by (auto simp add: df)
    from k have "count_list datas k \<noteq> 0"
      by (simp only: count_list_0_iff not_not)
    then have "0 < count_list datas k" by simp
    with n show "0 < n" by simp
    from n cnt show "n = length (filter (\<lambda>l. now - 30 * 86400 \<le> l_timestamp l \<and>
                                           l_timestamp l div 86400 = k) (logs_usuario d))"
      by simp
  qed
  have c: "\<forall>l \<in> set (logs_usuario d).
      now - 30 * 86400 \<le> l_timestamp l \<longrightarrow> l_timestamp l div 86400 \<in> fst ` set (df_diario now d)"
  proof (intro ballI impI)
    fix l assume "l \<in> set (logs_usuario d)" "now - 30 * 86400 \<le> l_timestamp l"
    then have "l_timestamp l div 86400 \<in> set datas"
      by (simp add: datas_def rows_def)
    then have "l_timestamp l div 86400 \<in> set (map fst (df_diario now d))"
      by (simp add: keys)
    then show "l_timestamp l div 86400 \<in> fst ` set (df_diario now d)" by simp
  qed
  have "sum_list (map snd (df_diario now d)) = sum_list (map (count_list datas) (sort (remdups datas)))"
    by (simp add: df comp_def)
  also have "\<dots> = sum_list (map (count_list datas) (remdups datas))"
    by (rule sum_list_sort_key)
  also have "\<dots> = length datas"
    by (rule sum_list_count_remdups)
  finally have e: "sum_list (map snd (df_diario now d)) =
     length (filter (\<lambda>l. now - 30 * 86400 \<le> l_timestamp l) (logs_usuario d))"
    by (simp add: datas_def rows_def)
  have z: "snd (snd (estatisticas_logs now d)) = df_diario now d"
    by (simp add: estatisticas_logs_def)
  have f: "(\<forall>l \<in> set (logs_usuario d). l_timestamp l \<le> now) \<longrightarrow>
      (\<forall>(k, n) \<in> set (df_diario now d).
         n = length (filter (\<lambda>l. now - 30 * 86400 \<le> l_timestamp l \<and> l_timestamp l \<le> now \<and>
                                   l_timestamp l div 86400 = k) (logs_usuario d)))"
  proof (intro impI)
    assume le: "\<forall>l \<in> set (logs_usuario d). l_timestamp l \<le> now"
    have same: "filter (\<lambda>l. now - 30 * 86400 \<le> l_timestamp l \<and> l_timestamp l \<le> now \<and>
                         l_timestamp l div 86400 = k) (logs_usuario d) =
                filter (\<lambda>l. now - 30 * 86400 \<le> l_timestamp l \<and> l_timestamp l div 86400 = k)
                       (logs_usuario d)" for k
      using le by (intro filter_cong) auto
    from b show "\<forall>(k, n) \<in> set (df_diario now d).
         n = length (filter (\<lambda>l. now - 30 * 86400 \<le> l_timestamp l \<and> l_timestamp l \<le> now \<and>
                                   l_timestamp l div 86400 = k) (logs_usuario d))"
      unfolding same by blast
  qed
  from z a b c e f show ?thesis by blast
qed

theorem df_diario_janela_witness:
  "(57, 2) \<in> set (df_diario 6000000 db_exemplo) \<and>
   length (filter (\<lambda>l. 6000000 - 30 * 86400 \<le> l_timestamp l \<and> l_timestamp l div 86400 = 57)
                  (logs_usuario db_exemplo)) = 2 \<and>
   last (logs_usuario db_exemplo) \<in> set (logs_usuario db_exemplo) \<and>
   6000000 - 30 * 86400 \<le> l_timestamp (last (logs_usuario db_exemplo)) \<and>
   l_timestamp (last (logs_usuario db_exemplo)) div 86400 \<in> fst ` set (df_diario 6000000 db_exemplo) \<and>
   list_all (\<lambda>l. l_timestamp l \<le> 6000000) (logs_usuario db_exemplo) \<and>
   length (filter (\<lambda>l. 6000000 - 30 * 86400 \<le> l_timestamp l \<and> l_timestamp l \<le> 6000000 \<and>
                       l_timestamp l div 86400 = 57) (logs_usuario db_exemplo)) = 2"
proof -
  note t = df_diario_janela [of 6000000 db_exemplo]
  have m: "(57, 2) \<in> set (df_diario 6000000 db_exemplo)"
    by (simp add: df_diario_exemplo)
  have l: "last (logs_usuario db_exemplo) \<in> set (logs_usuario db_exemplo)"
    by (simp add: db_exemplo_def)
  have w: "6000000 - 30 * 86400 \<le> l_timestamp (last (logs_usuario db_exemplo))"
    by (simp add: db_exemplo_def)
  have u: "\<forall>l \<in> set (logs_usuario db_exemplo). l_timestamp l \<le> 6000000"
    by (simp add: db_exemplo_def)
  from t m have c: "length (filter (\<lambda>l. 6000000 - 30 * 86400 \<le> l_timestamp l \<and> l_timestamp l div 86400 = 57)
                  (logs_usuario db_exemplo)) = 2"
    by fastforce
  from t l w have i: "l_timestamp (last (logs_usuario db_exemplo)) div 86400 \<in> fst ` set (df_diario 6000000 db_exemplo)"
    by blast
  from t u have "\<forall>(k, n) \<in> set (df_diario 6000000 db_exemplo).
         n = length (filter (\<lambda>l. 6000000 - 30 * 86400 \<le> l_timestamp l \<and> l_timestamp l \<le> 6000000 \<and>
                                   l_timestamp l div 86400 = k) (logs_usuario db_exemplo))"
    by blast
  with m have c2: "length (filter (\<lambda>l. 6000000 - 30 * 86400 \<le> l_timestamp l \<and> l_timestamp l \<le> 6000000 \<and>
                       l_timestamp l div 86400 = 57) (logs_usuario db_exemplo)) = 2"
    by fastforce
  from u have u': "list_all (\<lambda>l. l_timestamp l \<le> 6000000) (logs_usuario db_exemplo)"
    by (simp add: list_all_iff)
  from m l w c i u' c2 show ?thesis by blast
qed

text \<open>
  C9, as amended. The counts by actor are the second result of \<open>estatisticas_logs\<close>.
  They come in descending order of the count and add up to the number of log rows;
  every log row is counted in the group of its actor, whose label is the name joined
  from \<open>usuarios\<close>. The rows without an actor form one group, and its label is \<open>NULL\<close>
  (here \<open>None\<close>): the query selects \<open>u.nome\<close> of a left join and puts no text in its
  place.
\<close>

theorem df_usuarios_grupos:
  "fst (snd (estatisticas_logs now d)) = df_usuarios d \<and>
   sorted_wrt (\<lambda>a b. a \<ge> b) (map snd (df_usuarios d)) \<and>
   sum_list (map snd (df_usuarios d)) = length (logs_usuario d) \<and>
   (\<forall>l \<in> set (logs_usuario d).
      (usuario_nome_de d (l_usuario_id l),
       length (filter (\<lambda>x. l_usuario_id x = l_usuario_id l) (logs_usuario d))) \<in> set (df_usuarios d)) \<and>
   ((\<exists>l \<in> set (logs_usuario d). l_usuario_id l = None) \<longrightarrow>
      (None, length (filter (\<lambda>l. l_usuario_id l = None) (logs_usuario d))) \<in> set (df_usuarios d))"
proof -
  define ks where "ks = map (\<lambda>l. (l_usuario_id l, usuario_nome_de d (l_usuario_id l))) (logs_usuario d)"
  define gs where "gs = ordenar_total_desc (contar_grupos ks)"
  have df: "df_usuarios d = map (\<lambda>g. (snd (fst g), snd g)) gs"
    by (simp add: df_usuarios_def gs_def ks_def)
  have snds: "map snd (df_usuarios d) = map snd gs"
    by (simp add: df comp_def)
  have a: "sorted_wrt (\<lambda>a b. a \<ge> b) (map snd (df_usuarios d))"
    unfolding snds gs_def by (rule sorted_ordenar_total_desc)
  have b: "sum_list (map snd (df_usuarios d)) = length (logs_usuario d)"
    by (simp add: snds gs_def sum_list_ordenar_total_desc sum_list_contar_grupos ks_def)
  have cnt: "count_list ks (l_usuario_id l, usuario_nome_de d (l_usuario_id l)) =
      length (filter (\<lambda>x. l_usuario_id x = l_usuario_id l) (logs_usuario d))" for l
  proof -
    have eq: "(\<lambda>x. (l_usuario_id x, usuario_nome_de d (l_usuario_id x)) =
               (l_usuario_id l, usuario_nome_de d (l_usuario_id l))) =
          (\<lambda>x. l_usuario_id x = l_usuario_id l)"
      by auto
    show ?thesis
      unfolding ks_def count_list_map_filter eq ..
  qed
  have c: "\<forall>l \<in> set (logs_usuario d).
      (usuario_nome_de d (l_usuario_id l),
       length (filter (\<lambda>x. l_usuario_id x = l_usuario_id l) (logs_usuario d))) \<in> set (df_usuarios d)"
  proof
    fix l assume l: "l \<in> set (logs_usuario d)"
    let ?k = "(l_usuario_id l, usuario_nome_de d (l_usuario_id l))"
    from l have "?k \<in> set ks" by (auto simp add: ks_def)
    then have "(?k, count_list ks ?k) \<in> set gs"
      by (simp add: gs_def set_ordenar_total_desc set_contar_grupos)
    then have "(\<lambda>g. (snd (fst g), snd g)) (?k, count_list ks ?k) \<in> set (df_usuarios d)"
      unfolding df set_map by (rule imageI)
    then show "(usuario_nome_de d (l_usuario_id l),
       length (filter (\<lambda>x. l_usuario_id x = l_usuario_id l) (logs_usuario d))) \<in> set (df_usuarios d)"
      by (simp add: cnt)
  qed
  have e: "(\<exists>l \<in> set (logs_usuario d). l_usuario_id l = None) \<longrightarrow>
      (None, length (filter (\<lambda>l. l_usuario_id l = None) (logs_usuario d))) \<in> set (df_usuarios d)"
  proof
    assume "\<exists>l \<in> set (logs_usuario d). l_usuario_id l = None"
    then obtain l where l: "l \<in> set (logs_usuario d)" "l_usuario_id l = None" by blast
    from c l(1) have "(usuario_nome_de d (l_usuario_id l),
       length (filter (\<lambda>x. l_usuario_id x = l_usuario_id l) (logs_usuario d))) \<in> set (df_usuarios d)"
      by blast
    with l(2) show "(None, length (filter (\<lambda>l. l_usuario_id l = None) (logs_usuario d))) \<in> set (df_usuarios d)"
      by (simp add: usuario_nome_de_def)
  qed
  have z: "fst (snd (estatisticas_logs now d)) = df_usuarios d"
    by (simp add: estatisticas_logs_def)
  from z a b c e show ?thesis by blast
qed

theorem df_usuarios_grupos_witness:
  "last (logs_usuario db_exemplo) \<in> set (logs_usuario db_exemplo) \<and>
   l_usuario_id (last (logs_usuario db_exemplo)) = None \<and>
   (None, length (filter (\<lambda>l. l_usuario_id l = None) (logs_usuario db_exemplo))) \<in> set (df_usuarios db_exemplo) \<and>
   sum_list (map snd (df_usuarios db_exemplo)) = 4"
proof -
  note t = df_usuarios_grupos [of 6000000 db_exemplo]
  have l: "last (logs_usuario db_exemplo) \<in> set (logs_usuario db_exemplo)"
    by (simp add: db_exemplo_def)
  have n: "l_usuario_id (last (logs_usuario db_exemplo)) = None"
    by (simp add: db_exemplo_def)
  have len: "length (logs_usuario db_exemplo) = 4"
    by (simp add: db_exemplo_def)
  from l n have "\<exists>l \<in> set (logs_usuario db_exemplo). l_usuario_id l = None" by blast
  with t have "(None, length (filter (\<lambda>l. l_usuario_id l = None) (logs_usuario db_exemplo))) \<in> set (df_usuarios db_exemplo)"
    by blast
  moreover from t len have "sum_list (map snd (df_usuarios db_exemplo)) = 4" by simp
  ultimately show ?thesis using l n by blast
qed

text \<open>The claim as stated fails: the example log has two rows without an actor, they
  are counted under the label \<open>None\<close>, and no row of the result is labelled
  \<open>unknown\<close>.\<close>

theorem df_usuarios_unknown_counterexample:
  "length (filter (\<lambda>l. l_usuario_id l = None) (logs_usuario db_exemplo)) = 2 \<and>
   (None, 2) \<in> set (df_usuarios db_exemplo) \<and>
   Some ''unknown'' \<notin> fst ` set (df_usuarios db_exemplo)"
  by (simp add: df_usuarios_exemplo) (simp add: db_exemplo_def)

subsection \<open>The details of a log row\<close>

text \<open>Integers: the digits of \<open>str_nat\<close> are read back as the number.\<close>

lemma digit_char_cases:
  assumes "d < 10"
  shows "is_digit (digit_char d) \<and> digit_val (digit_char d) = d \<and> (digit_char d = CHR ''0'' \<longrightarrow> d = 0)"
proof -
  from assms consider "d = 0" | "d = 1" | "d = 2" | "d = 3" | "d = 4" | "d = 5" | "d = 6"
    | "d = 7" | "d = 8" | "d = 9"
    by atomize_elim arith
  then show ?thesis
    by cases (simp_all add: digit_char_def is_digit_def digit_val_def)
qed

lemma str_nat_not_Nil: "str_nat n \<noteq> []"
  by (subst str_nat.simps) simp

lemma str_nat_digits: "\<forall>c\<in>set (str_nat n). is_digit c"
proof (induction n rule: str_nat.induct)
  case (1 n)
  show ?case
  proof (cases "n < 10")
    case True
    then show ?thesis
      by (subst str_nat.simps) (simp add: digit_char_cases)
  next
    case False
    with 1 show ?thesis
      by (subst str_nat.simps) (simp add: digit_char_cases)
  qed
qed

lemma nat_of_digits_snoc: "nat_of_digits acc (xs @ [c]) = nat_of_digits acc xs * 10 + digit_val c"
  by (induction xs arbitrary: acc) simp_all

lemma nat_of_digits_str_nat: "nat_of_digits 0 (str_nat n) = n"
proof (induction n rule: str_nat.induct)
  case (1 n)
  show ?case
  proof (cases "n < 10")
    case True
    then show ?thesis
      by (subst str_nat.simps) (simp add: digit_char_cases)
  next
    case False
    with 1 show ?thesis
      by (subst str_nat.simps) (simp add: nat_of_digits_snoc digit_char_cases)
  qed
qed

lemma hd_str_nat: "0 < n \<Longrightarrow> hd (str_nat n) \<noteq> CHR ''0''"
proof (induction n rule: str_nat.induct)
  case (1 n)
  show ?case
  proof (cases "n < 10")
    case True
    with 1(2) show ?thesis
      using digit_char_cases[of n] by (subst str_nat.simps) auto
  next
    case False
    then have "0 < n div 10" by simp
    with 1 False show ?thesis
      by (subst str_nat.simps) (simp add: str_nat_not_Nil)
  qed
qed

lemma str_nat_leading: "hd (str_nat n) = CHR ''0'' \<Longrightarrow> length (str_nat n) = 1"
proof (cases "n = 0")
  case True
  then show ?thesis by (simp add: str_nat.simps)
next
  case False
  assume "hd (str_nat n) = CHR ''0''"
  with False hd_str_nat[of n] show ?thesis by simp
qed

lemma takeWhile_digits:
  "num_end rest \<Longrightarrow> takeWhile is_digit (str_nat n @ rest) = str_nat n"
  by (cases rest) (simp_all add: num_end_def takeWhile_append2 str_nat_digits)

lemma dropWhile_digits:
  "num_end rest \<Longrightarrow> dropWhile is_digit (str_nat n @ rest) = rest"
  by (cases rest) (simp_all add: num_end_def dropWhile_append2 str_nat_digits)

lemma hd_str_nat_digit: "is_digit (hd (str_nat n))"
  using str_nat_digits[of n] str_nat_not_Nil[of n] by (cases "str_nat n") simp_all

lemma is_digit_minus: "\<not> is_digit (CHR ''-'')"
  by (simp add: is_digit_def)

lemma parse_number_str_int:
  assumes "num_end rest"
  shows "parse_number (str_int i @ rest) = Some (PInt i, rest)"
proof (cases "i < 0")
  case True
  have lead: "\<not> (hd (str_nat (nat (- i))) = CHR ''0'' \<and> 1 < length (str_nat (nat (- i))))"
    using str_nat_leading[of "nat (- i)"] by auto
  from True assms lead show ?thesis
    by (auto simp add: parse_number_def str_int_def Let_def takeWhile_digits dropWhile_digits
        str_nat_not_Nil nat_of_digits_str_nat num_end_def)
next
  case False
  have lead: "\<not> (hd (str_nat (nat i)) = CHR ''0'' \<and> 1 < length (str_nat (nat i)))"
    using str_nat_leading[of "nat i"] by auto
  have nm: "hd (str_nat (nat i) @ rest) \<noteq> CHR ''-''"
    using hd_str_nat_digit[of "nat i"] is_digit_minus by (auto simp add: str_nat_not_Nil)
  from False assms lead nm show ?thesis
    by (auto simp add: parse_number_def str_int_def Let_def takeWhile_digits dropWhile_digits
        str_nat_not_Nil nat_of_digits_str_nat num_end_def)
qed

text \<open>Strings: every escape that \<open>escape_char\<close> writes is read back as the character.\<close>

lemma hex_val_hex_digit:
  assumes "d < 16"
  shows "hex_val (hex_digit d) = Some d"
proof -
  from assms consider "d = 0" | "d = 1" | "d = 2" | "d = 3" | "d = 4" | "d = 5" | "d = 6"
    | "d = 7" | "d = 8" | "d = 9" | "d = 10" | "d = 11" | "d = 12" | "d = 13" | "d = 14"
    | "d = 15"
    by atomize_elim arith
  then show ?thesis
    by cases (simp_all add: hex_digit_def hex_val_def)
qed

lemma hex_val_zero: "hex_val (CHR ''0'') = Some 0"
  by (simp add: hex_val_def)

lemma decode_escape_u:
  assumes "(of_char c :: nat) < 32"
  shows "decode_escape (CHR ''u'' # CHR ''0'' # CHR ''0'' # hex_digit ((of_char c :: nat) div 16)
                         # hex_digit ((of_char c :: nat) mod 16) # t) = Some (c, t)"
proof -
  let ?n = "of_char c :: nat"
  have h1: "hex_val (hex_digit (?n div 16)) = Some (?n div 16)"
    using assms by (intro hex_val_hex_digit) simp
  have h0: "hex_val (hex_digit (?n mod 16)) = Some (?n mod 16)"
    by (intro hex_val_hex_digit) simp
  have n: "?n div 16 * 16 + ?n mod 16 = ?n" by simp
  from assms have lt: "?n < 128" by simp
  show ?thesis
    by (simp add: decode_escape_def hex_val_zero h1 h0 n lt)
qed

lemma parse_chars_escape_char:
  "parse_chars (escape_char c @ t) = map_option (\<lambda>(x, r). (c # x, r)) (parse_chars t)"
proof -
  consider (q) "c = CHR 0x22" | (bs) "c = CHR 0x5C" | (b) "c = CHR 0x08" | (f) "c = CHR 0x0C"
    | (n) "c = CHR 0x0A" | (r) "c = CHR 0x0D" | (t) "c = CHR 0x09"
    | (u) "c \<noteq> CHR 0x22" "c \<noteq> CHR 0x5C" "c \<noteq> CHR 0x08" "c \<noteq> CHR 0x0C" "c \<noteq> CHR 0x0A"
          "c \<noteq> CHR 0x0D" "c \<noteq> CHR 0x09" "(of_char c :: nat) < 32"
    | (p) "c \<noteq> CHR 0x22" "c \<noteq> CHR 0x5C" "\<not> (of_char c :: nat) < 32"
          "c \<noteq> CHR 0x08" "c \<noteq> CHR 0x0C" "c \<noteq> CHR 0x0A" "c \<noteq> CHR 0x0D" "c \<noteq> CHR 0x09"
    by blast
  then show ?thesis
  proof cases
    case u
    then show ?thesis
      by (simp add: escape_char_def decode_escape_u)
  next
    case p
    then show ?thesis
      by (simp add: escape_char_def)
  qed (simp_all add: escape_char_def decode_escape_def)
qed

lemma parse_chars_escaped:
  "parse_chars (concat (map escape_char s) @ CHR 0x22 # rest) = Some (s, rest)"
  by (induction s) (simp_all add: parse_chars_escape_char)

lemma parse_chars_encode_basestring:
  "parse_chars (tl (encode_basestring s) @ rest) = Some (s, rest)"
  by (simp add: encode_basestring_def parse_chars_escaped)

text \<open>Dictionaries: items with distinct string keys are stored one after the other.\<close>

lemma dict_set_fresh: "k \<notin> fst ` set m \<Longrightarrow> dict_set m k v = m @ [(k, v)]"
  by (induction m) auto

lemma chave_str_text: "chave_str k \<Longrightarrow> PStr (chave_text k) = k"
  by (cases k) (simp_all add: chave_str_def chave_text_def)

lemma itens_nativos_chaves: "itens_nativos kvs \<Longrightarrow> \<forall>kv\<in>set kvs. chave_str (fst kv)"
  by (induction kvs) fastforce+

lemma foldl_dict_set:
  "\<forall>kv\<in>set kvs. chave_str (fst kv) \<Longrightarrow> distinct (map fst (acc @ kvs)) \<Longrightarrow>
   foldl (\<lambda>m kv. dict_set m (PStr (fst kv)) (snd kv)) acc
     (map (\<lambda>kv. (chave_text (fst kv), snd kv)) kvs) = acc @ kvs"
proof (induction kvs arbitrary: acc)
  case Nil
  then show ?case by simp
next
  case (Cons kv kvs)
  from Cons.prems have k: "PStr (chave_text (fst kv)) = fst kv"
    by (simp add: chave_str_text)
  from Cons.prems have fresh: "fst kv \<notin> fst ` set acc" by auto
  have step: "dict_set acc (fst kv) (snd kv) = acc @ [kv]"
    using dict_set_fresh[OF fresh, of "snd kv"] by simp
  from Cons.prems have "distinct (map fst ((acc @ [kv]) @ kvs))" by simp
  with Cons.IH[of "acc @ [kv]"] Cons.prems
  have "foldl (\<lambda>m kv. dict_set m (PStr (fst kv)) (snd kv)) (acc @ [kv])
          (map (\<lambda>kv. (chave_text (fst kv), snd kv)) kvs) = (acc @ [kv]) @ kvs"
    by simp
  then show ?case by (simp add: k step)
qed

lemma dict_of_pairs_nativos:
  "itens_nativos kvs \<Longrightarrow> distinct (map fst kvs) \<Longrightarrow>
   dict_of_pairs (map (\<lambda>kv. (chave_text (fst kv), snd kv)) kvs) = kvs"
  using foldl_dict_set[of kvs "[]"] itens_nativos_chaves[of kvs]
  by (simp add: dict_of_pairs_def)

text \<open>Values: the decoder reads back what \<open>json_text\<close> wrote for a value that JSON has
  a form for, with fuel the length of the text, whatever follows the value.\<close>

lemma skip_ws_Cons: "\<not> is_ws c \<Longrightarrow> skip_ws (c # s) = c # s"
  by (simp add: skip_ws_def)

lemma skip_ws_space: "skip_ws (CHR '' '' # s) = skip_ws s"
  by (simp add: skip_ws_def is_ws_def)

lemma skip_ws_Nil: "skip_ws [] = []"
  by (simp add: skip_ws_def)

lemma str_int_hd: "\<exists>c cs. str_int i = c # cs \<and> (is_digit c \<or> c = CHR ''-'')"
proof (cases "i < 0")
  case True
  then show ?thesis by (simp add: str_int_def)
next
  case False
  obtain c cs where "str_nat (nat i) = c # cs"
    using str_nat_not_Nil[of "nat i"] by (cases "str_nat (nat i)") auto
  with False hd_str_nat_digit[of "nat i"] show ?thesis
    by (simp add: str_int_def)
qed

lemma json_text_hd:
  "json_nativo v \<Longrightarrow>
   \<exists>c cs. json_text v = c # cs \<and> \<not> is_ws c \<and> c \<noteq> CHR '']'' \<and> c \<noteq> CHR ''}''"
proof (cases v)
  case (PInt i)
  obtain c cs where "str_int i = c # cs" "is_digit c \<or> c = CHR ''-''"
    using str_int_hd by blast
  with PInt show ?thesis
    by (auto simp add: is_ws_def is_digit_def)
qed (simp_all add: is_ws_def encode_basestring_def)

lemma skip_ws_json_text: "json_nativo v \<Longrightarrow> skip_ws (json_text v @ t) = json_text v @ t"
proof -
  assume "json_nativo v"
  then obtain c cs where "json_text v = c # cs" "\<not> is_ws c"
    using json_text_hd by blast
  then show ?thesis by (simp add: skip_ws_Cons)
qed

lemma text_elems_hd:
  "vs \<noteq> [] \<Longrightarrow> json_nativos vs \<Longrightarrow>
   \<exists>c cs. text_elems vs = c # cs \<and> \<not> is_ws c \<and> c \<noteq> CHR '']''"
proof (cases vs)
  case Nil
  assume "vs \<noteq> []"
  with Nil show ?thesis by simp
next
  case (Cons v r)
  assume "json_nativos vs"
  with Cons have "json_nativo v" by simp
  then obtain c cs where "json_text v = c # cs" "\<not> is_ws c" "c \<noteq> CHR '']''"
    using json_text_hd by blast
  with Cons show ?thesis by simp
qed

lemma text_items_Cons:
  "text_items ((k, v) # kvs) @ t =
     CHR 0x22 # concat (map escape_char (chave_text k)) @ CHR 0x22 # CHR '':'' # CHR '' '' #
     json_text v @ (if kvs = [] then t else CHR '','' # CHR '' '' # text_items kvs @ t)"
  by (simp add: encode_basestring_def)

lemma text_elems_Cons:
  "text_elems (v # vs) @ t =
     json_text v @ (if vs = [] then t else CHR '','' # CHR '' '' # text_elems vs @ t)"
  by simp

lemma text_items_hd: "kvs \<noteq> [] \<Longrightarrow> \<exists>cs. text_items kvs = CHR 0x22 # cs"
  by (cases kvs) (auto simp add: encode_basestring_def)

lemma parse_value_int:
  assumes "num_end rest"
  shows "parse_value (Suc m) (str_int i @ rest) = Some (PInt i, rest)"
proof -
  obtain c cs where s: "str_int i = c # cs" and c: "is_digit c \<or> c = CHR ''-''"
    using str_int_hd by blast
  from c have "c \<noteq> CHR ''{''" "c \<noteq> CHR ''[''" "c \<noteq> CHR 0x22" "c \<noteq> CHR ''n''"
    "c \<noteq> CHR ''t''" "c \<noteq> CHR ''f''"
    by (auto simp add: is_digit_def)
  then have "parse_value (Suc m) (c # cs @ rest) = parse_number (c # cs @ rest)"
    by simp
  with s parse_number_str_int[OF assms, of i] show ?thesis by simp
qed

lemma num_end_close:
  "num_end (CHR ''}'' # t)" "num_end (CHR '']'' # t)" "num_end (CHR '','' # t)" "num_end []"
  by (simp_all add: num_end_def is_digit_def)

lemma parse_round_trip:
  "json_nativo v \<longrightarrow>
     (\<forall>n rest. length (json_text v) \<le> n \<longrightarrow> num_end rest \<longrightarrow>
        parse_value n (json_text v @ rest) = Some (v, rest))"
  "vs \<noteq> [] \<longrightarrow> json_nativos vs \<longrightarrow>
     (\<forall>n rest. length (text_elems vs) < n \<longrightarrow>
        parse_elems n (text_elems vs @ CHR '']'' # rest) = Some (vs, rest))"
  "kvs \<noteq> [] \<longrightarrow> itens_nativos kvs \<longrightarrow>
     (\<forall>n rest. length (text_items kvs) \<le> n \<longrightarrow>
        parse_members n (text_items kvs @ CHR ''}'' # rest) =
          Some (map (\<lambda>kv. (chave_text (fst kv), snd kv)) kvs, rest))"
proof (induction v and vs and kvs rule: json_text_text_elems_text_items.induct)
  case 1
  show ?case
  proof (intro allI impI)
    fix n rest assume "length (json_text PNone) \<le> n"
    then obtain m where "n = Suc m" by (cases n) auto
    then show "parse_value n (json_text PNone @ rest) = Some (PNone, rest)" by simp
  qed
next
  case (2 b)
  show ?case
  proof (intro allI impI)
    fix n rest assume "length (json_text (PBool b)) \<le> n"
    then obtain m where "n = Suc m" by (cases n) (auto split: if_splits)
    then show "parse_value n (json_text (PBool b) @ rest) = Some (PBool b, rest)" by simp
  qed
next
  case (3 i)
  show ?case
  proof (intro allI impI)
    fix n rest assume n: "length (json_text (PInt i)) \<le> n" and r: "num_end rest"
    obtain c cs where "str_int i = c # cs" using str_int_hd by blast
    with n obtain m where "n = Suc m" by (cases n) auto
    with r parse_value_int[of rest m i]
    show "parse_value n (json_text (PInt i) @ rest) = Some (PInt i, rest)"
      by (simp del: parse_value.simps)
  qed
next
  case (4 s)
  show ?case
  proof (intro allI impI)
    fix n rest assume "length (json_text (PStr s)) \<le> n"
    then obtain m where "n = Suc m" by (cases n) (auto simp add: encode_basestring_def)
    then show "parse_value n (json_text (PStr s) @ rest) = Some (PStr s, rest)"
      by (simp add: encode_basestring_def parse_chars_escaped)
  qed
next
  case (5 vs)
  show ?case
  proof (intro allI impI)
    fix n rest assume nat: "json_nativo (PList vs)" and n: "length (json_text (PList vs)) \<le> n"
    then obtain m where m: "n = Suc m" "length (text_elems vs) < m" by (cases n) auto
    show "parse_value n (json_text (PList vs) @ rest) = Some (PList vs, rest)"
    proof (cases "vs = []")
      case True
      with m show ?thesis by (simp add: skip_ws_Cons is_ws_def)
    next
      case False
      from nat have ns: "json_nativos vs" by simp
      with False obtain c cs where cs: "text_elems vs = c # cs" "\<not> is_ws c" "c \<noteq> CHR '']''"
        using text_elems_hd by blast
      from False ns 5 m have "parse_elems m (text_elems vs @ CHR '']'' # rest) = Some (vs, rest)"
        by blast
      with cs m show ?thesis by (simp add: skip_ws_Cons)
    qed
  qed
next
  case (6 vs)
  show ?case by simp
next
  case (7 kvs)
  show ?case
  proof (intro allI impI)
    fix n rest assume nat: "json_nativo (PDict kvs)" and n: "length (json_text (PDict kvs)) \<le> n"
    then obtain m where m: "n = Suc m" "length (text_items kvs) \<le> m" by (cases n) auto
    show "parse_value n (json_text (PDict kvs) @ rest) = Some (PDict kvs, rest)"
    proof (cases "kvs = []")
      case True
      with m show ?thesis by (simp add: skip_ws_Cons is_ws_def)
    next
      case False
      then obtain cs where cs: "text_items kvs = CHR 0x22 # cs"
        using text_items_hd by blast
      from nat have ns: "itens_nativos kvs" and dk: "distinct (map fst kvs)" by simp_all
      from False ns 7 m have "parse_members m (text_items kvs @ CHR ''}'' # rest) =
          Some (map (\<lambda>kv. (chave_text (fst kv), snd kv)) kvs, rest)"
        by blast
      with cs m dict_of_pairs_nativos[OF ns dk] show ?thesis
        by (simp add: skip_ws_Cons is_ws_def)
    qed
  qed
next
  case 8
  show ?case by simp
next
  case 9
  show ?case by simp
next
  case (10 v vs)
  show ?case
  proof (intro allI impI)
    fix n rest assume nat: "json_nativos (v # vs)" and n: "length (text_elems (v # vs)) < n"
    then obtain m where m: "n = Suc m" by (cases n) auto
    from nat have nv: "json_nativo v" and nvs: "json_nativos vs" by simp_all
    let ?tail = "if vs = [] then CHR '']'' # rest
                 else CHR '','' # CHR '' '' # text_elems vs @ CHR '']'' # rest"
    have shape: "text_elems (v # vs) @ CHR '']'' # rest = json_text v @ ?tail"
      by (simp only: text_elems_Cons)
    from n m have lv: "length (json_text v) \<le> m" by simp
    have ne: "num_end ?tail" by (simp add: num_end_close)
    from 10(1) nv lv ne have pv: "parse_value m (json_text v @ ?tail) = Some (v, ?tail)"
      by blast
    show "parse_elems n (text_elems (v # vs) @ CHR '']'' # rest) = Some (v # vs, rest)"
    proof (cases "vs = []")
      case True
      with pv show ?thesis
        unfolding shape m by (simp add: skip_ws_Cons is_ws_def)
    next
      case False
      with nvs obtain c cs where cs: "text_elems vs = c # cs" "\<not> is_ws c"
        using text_elems_hd by blast
      from n m False have "length (text_elems vs) < m" by simp
      with 10(2) False nvs have "parse_elems m (text_elems vs @ CHR '']'' # rest) = Some (vs, rest)"
        by blast
      with False pv cs show ?thesis
        unfolding shape m by (simp add: skip_ws_Cons skip_ws_space is_ws_def)
    qed
  qed
next
  case 11
  show ?case by simp
next
  case (12 k v kvs)
  show ?case
  proof (intro allI impI)
    fix n rest assume nat: "itens_nativos ((k, v) # kvs)"
      and n: "length (text_items ((k, v) # kvs)) \<le> n"
    then obtain m where m: "n = Suc m" by (cases n) (auto simp add: encode_basestring_def)
    from nat have nv: "json_nativo v" and nkvs: "itens_nativos kvs" by simp_all
    let ?tail = "if kvs = [] then CHR ''}'' # rest
                 else CHR '','' # CHR '' '' # text_items kvs @ CHR ''}'' # rest"
    have shape: "text_items ((k, v) # kvs) @ CHR ''}'' # rest =
       CHR 0x22 # concat (map escape_char (chave_text k)) @ CHR 0x22 # CHR '':'' # CHR '' '' #
       json_text v @ ?tail"
      by (simp only: text_items_Cons)
    from n m have lv: "length (json_text v) \<le> m"
      by (simp add: encode_basestring_def)
    have ne: "num_end ?tail" by (simp add: num_end_close)
    from 12(1) nv lv ne have pv: "parse_value m (json_text v @ ?tail) = Some (v, ?tail)"
      by blast
    have key: "parse_chars (concat (map escape_char (chave_text k)) @ CHR 0x22 # CHR '':'' #
                 CHR '' '' # json_text v @ ?tail)
        = Some (chave_text k, CHR '':'' # CHR '' '' # json_text v @ ?tail)"
      by (rule parse_chars_escaped)
    show "parse_members n (text_items ((k, v) # kvs) @ CHR ''}'' # rest) =
            Some (map (\<lambda>kv. (chave_text (fst kv), snd kv)) ((k, v) # kvs), rest)"
    proof (cases "kvs = []")
      case True
      with pv key nv show ?thesis
        unfolding shape m
        by (simp add: skip_ws_Cons skip_ws_space skip_ws_json_text is_ws_def)
    next
      case False
      then obtain cs where cs: "text_items kvs = CHR 0x22 # cs"
        using text_items_hd by blast
      from n m False have "length (text_items kvs) \<le> m"
        by (simp add: encode_basestring_def)
      with 12(2) False nkvs have "parse_members m (text_items kvs @ CHR ''}'' # rest) =
          Some (map (\<lambda>kv. (chave_text (fst kv), snd kv)) kvs, rest)"
        by blast
      with False pv key cs nv show ?thesis
        unfolding shape m
        by (simp add: skip_ws_Cons skip_ws_space skip_ws_json_text is_ws_def)
    qed
  qed
qed

lemma json_loads_json_text: "json_nativo v \<Longrightarrow> json_loads (json_text v) = Some v"
proof -
  assume nat: "json_nativo v"
  then have "parse_value (length (json_text v)) (json_text v @ []) = Some (v, [])"
    using parse_round_trip(1)[of v] num_end_close(4) by blast
  moreover have "skip_ws (json_text v) = json_text v"
    using skip_ws_json_text[OF nat, of "[]"] by simp
  ultimately show ?thesis
    by (simp add: json_loads_def skip_ws_Nil)
qed

lemma json_nativo_serializavel:
  "json_nativo v \<longrightarrow> serializavel v"
  "json_nativos vs \<longrightarrow> serializaveis vs"
  "itens_nativos kvs \<longrightarrow> itens_serializaveis kvs"
proof (induction v and vs and kvs rule: json_nativo_json_nativos_itens_nativos.induct)
  case (12 k v kvs)
  then show ?case
    by (cases k) (simp_all add: chave_str_def chave_ok_def)
qed simp_all

lemma registrar_log_type_error:
  "\<not> itens_serializaveis m \<Longrightarrow>
   registrar_log uid acao tab rid (DDict m) st ip ua now d = (Inl TypeError, d)"
  by (simp add: registrar_log_def detalhes_text_def json_dumps_def)

text \<open>The row that \<open>registrar_log\<close> appends for a dictionary holds the JSON text of the
  dictionary, and a query whose filters it passes and whose limit is large enough
  returns it.\<close>

lemma registrar_log_recuperado:
  assumes "itens_serializaveis m"
      and "where_logs fu ft fa di df
             (last (logs_usuario (snd (registrar_log uid acao tab rid (DDict m) st ip ua now d))))"
      and "limite < 0 \<or> length (logs_usuario d) < nat limite"
  shows "fst (registrar_log uid acao tab rid (DDict m) st ip ua now d) = Inr () \<and>
         last (logs_usuario (snd (registrar_log uid acao tab rid (DDict m) st ip ua now d)))
           \<in> fst ` set (buscar_logs fu ft fa di df limite
                          (snd (registrar_log uid acao tab rid (DDict m) st ip ua now d))) \<and>
         l_detalhes (last (logs_usuario (snd (registrar_log uid acao tab rid (DDict m) st ip ua now d))))
           = Some (json_text (PDict m))"
proof -
  define d' where "d' = snd (registrar_log uid acao tab rid (DDict m) st ip ua now d)"
  define e where "e = last (logs_usuario d')"
  have ok: "fst (registrar_log uid acao tab rid (DDict m) st ip ua now d) = Inr ()"
    by (simp add: registrar_log_dict[OF assms(1)])
  have logs: "logs_usuario d' = logs_usuario d @ [e]"
    by (simp add: d'_def e_def registrar_log_dict[OF assms(1)])
  have det: "l_detalhes e = Some (json_text (PDict m))"
    by (simp add: d'_def e_def registrar_log_dict[OF assms(1)] del: json_text.simps)
  let ?rows = "filter (where_logs fu ft fa di df) (logs_usuario d')"
  from assms(2) have "e \<in> set ?rows"
    by (simp add: logs d'_def[symmetric] e_def[symmetric])
  then have ord: "e \<in> set (sort_key (\<lambda>l. - l_timestamp l) ?rows)"
    by simp
  have "length (sort_key (\<lambda>l. - l_timestamp l) ?rows) \<le> Suc (length (logs_usuario d))"
    using length_filter_le[of "where_logs fu ft fa di df" "logs_usuario d'"] by (simp add: logs)
  with assms(3) have lim: "(if limite < 0 then sort_key (\<lambda>l. - l_timestamp l) ?rows
            else take (nat limite) (sort_key (\<lambda>l. - l_timestamp l) ?rows))
          = sort_key (\<lambda>l. - l_timestamp l) ?rows"
    by auto
  have "fst ` set (buscar_logs fu ft fa di df limite d') = set (sort_key (\<lambda>l. - l_timestamp l) ?rows)"
    unfolding buscar_logs_def Let_def lim by (simp add: image_image)
  with ord have a: "e \<in> fst ` set (buscar_logs fu ft fa di df limite d')"
    by simp
  from ok a det show ?thesis
    unfolding e_def d'_def by blast
qed

lemma json_loads_tuple:
  "json_loads (json_text (PDict [(PStr ''t'', PTuple [PInt 1, PInt 2])])) =
     Some (PDict [(PStr ''t'', PList [PInt 1, PInt 2])])"
proof -
  have "json_text (PDict [(PStr ''t'', PTuple [PInt 1, PInt 2])]) =
        json_text (PDict [(PStr ''t'', PList [PInt 1, PInt 2])])"
    by simp
  moreover have "json_nativo (PDict [(PStr ''t'', PList [PInt 1, PInt 2])])"
    by (simp add: chave_str_def)
  ultimately show ?thesis
    by (simp only: json_loads_json_text)
qed

text \<open>
  C6, as amended. For every dictionary \<open>m\<close> that JSON has a form for (string keys; values
  that are strings, ints, booleans, \<open>None\<close>, lists of such values or dictionaries of this
  kind), \<open>registrar_log\<close> with \<open>m\<close> as details succeeds, the row it appends is among the
  rows of every \<open>buscar_logs\<close> query whose filters it passes and whose limit does not cut
  the result short, and the JSON decoding of its \<open>detalhes\<close> text is \<open>m\<close> again.
  Outside of these dictionaries the text need not lead back: a key that is an int, a
  boolean or \<open>None\<close> comes back as a string and a tuple as a list
  (\<open>json_loads_tuple\<close>), and a value that cannot be serialised makes the call raise
  before anything is written (\<open>registrar_log_type_error\<close>).
\<close>

theorem detalhes_round_trip:
  assumes "json_nativo (PDict m)"
      and "where_logs fu ft fa di df
             (last (logs_usuario (snd (registrar_log uid acao tab rid (DDict m) st ip ua now d))))"
      and "limite < 0 \<or> length (logs_usuario d) < nat limite"
  shows "fst (registrar_log uid acao tab rid (DDict m) st ip ua now d) = Inr () \<and>
         last (logs_usuario (snd (registrar_log uid acao tab rid (DDict m) st ip ua now d)))
           \<in> fst ` set (buscar_logs fu ft fa di df limite
                          (snd (registrar_log uid acao tab rid (DDict m) st ip ua now d))) \<and>
         Option.bind
           (l_detalhes (last (logs_usuario (snd (registrar_log uid acao tab rid (DDict m) st ip ua now d)))))
           json_loads = Some (PDict m)"
proof -
  from assms(1) have ser: "itens_serializaveis m"
    using json_nativo_serializavel(1)[of "PDict m"] by simp
  from assms(1) have "json_loads (json_text (PDict m)) = Some (PDict m)"
    by (rule json_loads_json_text)
  with registrar_log_recuperado[OF ser assms(2) assms(3)] show ?thesis
    by (simp del: json_text.simps)
qed

theorem detalhes_round_trip_witness:
  "json_nativo (PDict detalhes_exemplo) \<and>
   where_logs None (Some ''protocolos'') None None None
     (last (logs_usuario (snd (registrar_log (Some 2) ''ATUALIZAR'' ''protocolos'' (Some 1)
        (DDict detalhes_exemplo) ''sucesso'' None None 6000000 db_exemplo)))) \<and>
   length (logs_usuario db_exemplo) < nat 100 \<and>
   fst (registrar_log (Some 2) ''ATUALIZAR'' ''protocolos'' (Some 1)
        (DDict detalhes_exemplo) ''sucesso'' None None 6000000 db_exemplo) = Inr () \<and>
   last (logs_usuario (snd (registrar_log (Some 2) ''ATUALIZAR'' ''protocolos'' (Some 1)
        (DDict detalhes_exemplo) ''sucesso'' None None 6000000 db_exemplo)))
     \<in> fst ` set (buscar_logs None (Some ''protocolos'') None None None 100
          (snd (registrar_log (Some 2) ''ATUALIZAR'' ''protocolos'' (Some 1)
             (DDict detalhes_exemplo) ''sucesso'' None None 6000000 db_exemplo))) \<and>
   Option.bind (l_detalhes (last (logs_usuario (snd (registrar_log (Some 2) ''ATUALIZAR''
        ''protocolos'' (Some 1) (DDict detalhes_exemplo) ''sucesso'' None None 6000000
        db_exemplo))))) json_loads = Some (PDict detalhes_exemplo)"
proof -
  have h0: "json_nativo (PDict detalhes_exemplo)"
    by (simp add: detalhes_exemplo_def chave_str_def)
  have ser: "itens_serializaveis detalhes_exemplo"
    by (simp add: detalhes_exemplo_def)
  have h1: "where_logs None (Some ''protocolos'') None None None
     (last (logs_usuario (snd (registrar_log (Some 2) ''ATUALIZAR'' ''protocolos'' (Some 1)
        (DDict detalhes_exemplo) ''sucesso'' None None 6000000 db_exemplo))))"
    by (simp add: where_logs_def registrar_log_dict[OF ser])
  have h2: "length (logs_usuario db_exemplo) < nat 100"
    by (simp add: db_exemplo_def)
  then have h2': "(100::int) < 0 \<or> length (logs_usuario db_exemplo) < nat 100" by simp
  from detalhes_round_trip [OF h0 h1 h2'] h0 h1 h2 show ?thesis by blast
qed

text \<open>The claim as stated fails: the dictionary \<open>{1: "a"}\<close> is stored as the text
  \<open>{"1": "a"}\<close>, the row is retrieved, and its text decodes to the dictionary with the
  string key \<open>"1"\<close>, which is not the dictionary with the int key 1.\<close>

theorem detalhes_int_key_counterexample:
  "fst (registrar_log (Some 2) ''ATUALIZAR'' ''protocolos'' (Some 1)
          (DDict [(PInt 1, PStr ''a'')]) ''sucesso'' None None 6000000 db_exemplo) = Inr () \<and>
   last (logs_usuario (snd (registrar_log (Some 2) ''ATUALIZAR'' ''protocolos'' (Some 1)
          (DDict [(PInt 1, PStr ''a'')]) ''sucesso'' None None 6000000 db_exemplo)))
     \<in> fst ` set (buscar_logs None None None None None 100
          (snd (registrar_log (Some 2) ''ATUALIZAR'' ''protocolos'' (Some 1)
             (DDict [(PInt 1, PStr ''a'')]) ''sucesso'' None None 6000000 db_exemplo))) \<and>
   Option.bind (l_detalhes (last (logs_usuario (snd (registrar_log (Some 2) ''ATUALIZAR''
          ''protocolos'' (Some 1) (DDict [(PInt 1, PStr ''a'')]) ''sucesso'' None None 6000000
          db_exemplo))))) json_loads = Some (PDict [(PStr ''1'', PStr ''a'')]) \<and>
   Option.bind (l_detalhes (last (logs_usuario (snd (registrar_log (Some 2) ''ATUALIZAR''
          ''protocolos'' (Some 1) (DDict [(PInt 1, PStr ''a'')]) ''sucesso'' None None 6000000
          db_exemplo))))) json_loads \<noteq> Some (PDict [(PInt 1, PStr ''a'')])"
proof -
  have ser: "itens_serializaveis [(PInt 1, PStr ''a'')]"
    by (simp add: chave_ok_def)
  have w: "where_logs None None None None None
     (last (logs_usuario (snd (registrar_log (Some 2) ''ATUALIZAR'' ''protocolos'' (Some 1)
        (DDict [(PInt 1, PStr ''a'')]) ''sucesso'' None None 6000000 db_exemplo))))"
    by (simp add: where_logs_def)
  have l: "(100::int) < 0 \<or> length (logs_usuario db_exemplo) < nat 100"
    by (simp add: db_exemplo_def)
  have same: "json_text (PDict [(PInt 1, PStr ''a'')]) = json_text (PDict [(PStr ''1'', PStr ''a'')])"
    by (simp add: chave_text_def str_int_def str_nat_1)
  have "json_nativo (PDict [(PStr ''1'', PStr ''a'')])"
    by (simp add: chave_str_def)
  then have dec: "json_loads (json_text (PDict [(PInt 1, PStr ''a'')])) = Some (PDict [(PStr ''1'', PStr ''a'')])"
    unfolding same by (rule json_loads_json_text)
  from registrar_log_recuperado[OF ser w l] dec show ?thesis
    by (simp del: json_text.simps)
qed

end
